theory Spec2Isabelle
  imports Main
begin

section \<open>JavaScript values\<close>

text \<open>
  A thrown JavaScript \<^verbatim>\<open>Error\<close> is its message. Every function that can throw
  returns \<open>js_error + 'a\<close>, with \<open>Inl\<close> for the thrown error.
\<close>

datatype js_error = Error (message: string)

text \<open>\<^verbatim>\<open>String.prototype.includes\<close>: the argument occurs as a contiguous substring.\<close>

fun str_includes :: "string \<Rightarrow> string \<Rightarrow> bool" where
  "str_includes [] sub = (sub = [])"
| "str_includes (c # cs) sub = (take (length sub) (c # cs) = sub \<or> str_includes cs sub)"

text \<open>\<^verbatim>\<open>Array.prototype.join\<close> on an array of strings.\<close>

fun join :: "string list \<Rightarrow> string \<Rightarrow> string" where
  "join [] sep = []"
| "join [x] sep = x"
| "join (x # y # zs) sep = x @ sep @ join (y # zs) sep"

section \<open>The transport (\<^verbatim>\<open>@permaweb/aoconnect\<close>) and its environment\<close>

type_synonym tag = "string \<times> string"

text \<open>\<^verbatim>\<open>SendAosBaseOptions\<close>; the signer of \<^verbatim>\<open>SendAosMessageOptions\<close> is opaque and left out.\<close>

record SendAosBaseOptions =
  processId :: string
  data :: "string option"
  tags :: "tag list"

text \<open>
  The part of a \<^verbatim>\<open>DryRunResult\<close> that the service reads: \<^verbatim>\<open>Messages\<close> may be
  missing, may be something that is not an array, or is an array of messages whose
  \<^verbatim>\<open>Data\<close> may be missing.
\<close>

record Message =
  Data :: "string option"

datatype messages_field = Missing | NotAnArray | Array "Message list"

record DryRunResult =
  Messages :: messages_field

text \<open>
  Everything observable that the code does to the outside is appended to a trace:
  the two Ledger Client operations when they are entered, every transport call they
  make, and every backoff sleep (\<^verbatim>\<open>setTimeout\<close>, in milliseconds).
\<close>

datatype event =
    DryRunOp string "tag list"
  | AoDryRun string "tag list"
  | SendOp string "tag list"
  | AoMessage string "tag list"
  | AoResult string string
  | Sleep int

text \<open>
  The remote side is an oracle: the reply to the \<open>n\<close>-th \<^verbatim>\<open>aoDryRun\<close> call, the reply
  to the \<open>n\<close>-th \<^verbatim>\<open>aoMessage\<close> call (a message id), and the reply to the result fetch
  that follows the \<open>n\<close>-th \<^verbatim>\<open>aoMessage\<close> call. The counters say how many calls have
  been made.
\<close>

record world =
  dryrun_reply :: "nat \<Rightarrow> js_error + DryRunResult"
  message_reply :: "nat \<Rightarrow> js_error + string"
  result_reply :: "nat \<Rightarrow> js_error + string"
  dryruns :: nat
  messages :: nat
  trace :: "event list"

definition emit :: "event \<Rightarrow> world \<Rightarrow> world" where
  "emit e w = w\<lparr>trace := trace w @ [e]\<rparr>"

definition aoDryRun :: "SendAosBaseOptions \<Rightarrow> world \<Rightarrow> (js_error + DryRunResult) \<times> world" where
  "aoDryRun opts w =
     (dryrun_reply w (dryruns w),
      emit (AoDryRun (processId opts) (tags opts)) (w\<lparr>dryruns := Suc (dryruns w)\<rparr>))"

definition aoMessage :: "SendAosBaseOptions \<Rightarrow> world \<Rightarrow> (js_error + string) \<times> world" where
  "aoMessage opts w =
     (message_reply w (messages w),
      emit (AoMessage (processId opts) (tags opts)) (w\<lparr>messages := Suc (messages w)\<rparr>))"

definition aoResult :: "string \<Rightarrow> string \<Rightarrow> world \<Rightarrow> (js_error + string) \<times> world" where
  "aoResult messageId pid w =
     (result_reply w (messages w - 1), emit (AoResult messageId pid) w)"

definition setTimeout :: "int \<Rightarrow> world \<Rightarrow> world" where
  "setTimeout ms w = emit (Sleep ms) w"

section \<open>Ledger Client (\<^verbatim>\<open>utils/aos.ts\<close>)\<close>

text \<open>
  The \<^verbatim>\<open>while (attempts < retries)\<close> loop of \<^verbatim>\<open>sendAosDryRun\<close>, with its two
  local variables \<^verbatim>\<open>attempts\<close> and \<^verbatim>\<open>lastError\<close> as arguments. The code after the
  loop is the \<open>else\<close> branch. The parameter \<^verbatim>\<open>retries\<close> of both operations has the
  default 3; the call sites in the service pass no value, which is the 3 there.
\<close>

function sendAosDryRun_loop ::
  "SendAosBaseOptions \<Rightarrow> int \<Rightarrow> nat \<Rightarrow> js_error option \<Rightarrow> world
     \<Rightarrow> (js_error + DryRunResult) \<times> world" where
  "sendAosDryRun_loop opts retries attempts lastError w =
     (if int attempts < retries then
        (case aoDryRun opts w of
           (Inr r, w1) \<Rightarrow> (Inr r, w1)
         | (Inl err, w1) \<Rightarrow>
             if str_includes (message err) ''500'' then
               sendAosDryRun_loop opts retries (attempts + 1) (Some err)
                 (setTimeout (2 ^ attempts * 2000) w1)
             else (Inl err, w1))
      else
        (case lastError of
           Some e \<Rightarrow> (Inl e, w)
         | None \<Rightarrow> (Inl (Error ''Unknown error occurred''), w)))"
  by pat_completeness auto
termination
  by (relation "measure (\<lambda>(opts, retries, attempts, lastError, w). nat (retries - int attempts))")
     auto

definition sendAosDryRun ::
  "SendAosBaseOptions \<Rightarrow> int \<Rightarrow> world \<Rightarrow> (js_error + DryRunResult) \<times> world" where
  "sendAosDryRun opts retries w =
     sendAosDryRun_loop opts retries 0 None (emit (DryRunOp (processId opts) (tags opts)) w)"

text \<open>
  \<^verbatim>\<open>sendAosMessage\<close>: one attempt submits the message and, when that returned a
  message id, fetches its result; an error of either call reaches the same handler.
\<close>

function sendAosMessage_loop ::
  "SendAosBaseOptions \<Rightarrow> int \<Rightarrow> nat \<Rightarrow> js_error option \<Rightarrow> world
     \<Rightarrow> (js_error + string \<times> string) \<times> world" where
  "sendAosMessage_loop opts retries attempts lastError w =
     (if int attempts < retries then
        (case (case aoMessage opts w of
                 (Inl err, w1) \<Rightarrow> (Inl err, w1)
               | (Inr messageId, w1) \<Rightarrow>
                   (case aoResult messageId (processId opts) w1 of
                      (Inl err, w2) \<Rightarrow> (Inl err, w2)
                    | (Inr result, w2) \<Rightarrow> (Inr (messageId, result), w2))) of
           (Inr r, w2) \<Rightarrow> (Inr r, w2)
         | (Inl err, w2) \<Rightarrow>
             if str_includes (message err) ''500'' then
               sendAosMessage_loop opts retries (attempts + 1) (Some err)
                 (setTimeout (2 ^ attempts * 2000) w2)
             else (Inl err, w2))
      else
        (case lastError of
           Some e \<Rightarrow> (Inl e, w)
         | None \<Rightarrow> (Inl (Error ''Unknown error occurred''), w)))"
  by pat_completeness auto
termination
  by (relation "measure (\<lambda>(opts, retries, attempts, lastError, w). nat (retries - int attempts))")
     auto

definition sendAosMessage ::
  "SendAosBaseOptions \<Rightarrow> int \<Rightarrow> world \<Rightarrow> (js_error + string \<times> string) \<times> world" where
  "sendAosMessage opts retries w =
     sendAosMessage_loop opts retries 0 None (emit (SendOp (processId opts) (tags opts)) w)"

section \<open>Ledger state (\<^verbatim>\<open>achievements.service.ts\<close>)\<close>

text \<open>
  A JavaScript object used as a dictionary is the list of its entries in
  \<^verbatim>\<open>Object.entries\<close> order; \<open>map_of\<close> reads a key. Its keys are taken to be distinct
  from the property names that every JavaScript object inherits. The interfaces are
  as the source declares them (\<open>mint_id\<close> and \<open>mint_name\<close> are the fields \<^verbatim>\<open>id\<close> and
  \<^verbatim>\<open>name\<close>); the sections of the state that the code tests for absence, or reads
  without a test, are optional. A payload that \<^verbatim>\<open>JSON.parse\<close> accepts is taken to be
  an object of the declared type.
\<close>

type_synonym 'v js_object = "(string \<times> 'v) list"

record CheeseMint =
  mint_id :: string
  mint_name :: string
  created_at :: int
  updated_at :: "int option"
  created_by :: string
  description :: string
  points :: int
  icon :: string
  category :: string

record CheeseMintAward =
  awarded_by :: string
  awarded_at :: int
  message_id :: string

record CheeseMintCollectionACLState =
  roles :: "bool js_object js_object option"

record CheeseMintCollectionState =
  owner :: string
  acl :: "CheeseMintCollectionACLState option"
  cheese_mints_by_id :: "CheeseMint js_object option"
  cheese_mints_by_address :: "CheeseMintAward js_object js_object option"

definition ACHIEVEMENT_WUZZY_SEARCHER :: string where
  "ACHIEVEMENT_WUZZY_SEARCHER = ''Wuzzy Searcher''"

definition ACHIEVEMENT_WUZZY_VIDEO_SEARCHER :: string where
  "ACHIEVEMENT_WUZZY_VIDEO_SEARCHER = ''Wuzzy Video Searcher''"

definition ACHIEVEMENT_WUZZY_IMAGE_SEARCHER :: string where
  "ACHIEVEMENT_WUZZY_IMAGE_SEARCHER = ''Wuzzy Image Searcher''"

definition ACHIEVEMENT_WUZZY_ARNS_SEARCHER :: string where
  "ACHIEVEMENT_WUZZY_ARNS_SEARCHER = ''Wuzzy ArNS Searcher''"

definition ACHIEVEMENT_WUZZY_AUDIO_SEARCHER :: string where
  "ACHIEVEMENT_WUZZY_AUDIO_SEARCHER = ''Wuzzy Audio Searcher''"

definition REQUIRED_ACHIEVEMENTS :: "string list" where
  "REQUIRED_ACHIEVEMENTS =
     [ACHIEVEMENT_WUZZY_SEARCHER, ACHIEVEMENT_WUZZY_VIDEO_SEARCHER,
      ACHIEVEMENT_WUZZY_IMAGE_SEARCHER, ACHIEVEMENT_WUZZY_ARNS_SEARCHER,
      ACHIEVEMENT_WUZZY_AUDIO_SEARCHER]"

section \<open>Achievement Ledger Service\<close>

text \<open>
  The mutable fields of the class. \<open>achievementIdsByName\<close> is a JavaScript \<^verbatim>\<open>Map\<close>:
  entries in insertion order, \<open>Map_set\<close> overwrites the value of a key that is
  there and appends a new key. \<open>stateCache = None\<close> is \<^verbatim>\<open>null\<close>. The field
  \<open>service_processId\<close> is \<^verbatim>\<open>this.processId\<close>.
\<close>

record AchievementsService =
  service_processId :: string
  walletAddress :: string
  achievementIdsByName :: "(string \<times> string) list"
  stateCache :: "CheeseMintCollectionState option"
  stateCacheTimestamp :: int
  stateCacheTtlMs :: int

fun Map_set :: "string \<Rightarrow> string \<Rightarrow> (string \<times> string) list \<Rightarrow> (string \<times> string) list" where
  "Map_set k v [] = [(k, v)]"
| "Map_set k v ((k', v') # m) = (if k' = k then (k, v) # m else (k', v') # Map_set k v m)"

text \<open>
  The field initialisers and the constructor, followed by the assignment of the
  wallet address in \<^verbatim>\<open>onModuleInit\<close>: the service as \<^verbatim>\<open>verifyInitialization\<close> finds
  it at startup. \<open>ttl\<close> is the configured \<^verbatim>\<open>AO_STATE_CACHE_TTL_MS\<close> as \<^verbatim>\<open>parseInt\<close>
  reads it, \<open>None\<close> when it is not configured (\<^verbatim>\<open>?? '300000'\<close>).
\<close>

definition new_AchievementsService :: "string \<Rightarrow> string \<Rightarrow> int option \<Rightarrow> AchievementsService" where
  "new_AchievementsService pid wallet ttl =
     \<lparr>service_processId = pid, walletAddress = wallet, achievementIdsByName = [],
      stateCache = None, stateCacheTimestamp = 0,
      stateCacheTtlMs = (case ttl of None \<Rightarrow> 300000 | Some t \<Rightarrow> t)\<rparr>"

definition invalidateStateCache :: "AchievementsService \<Rightarrow> AchievementsService" where
  "invalidateStateCache svc = svc\<lparr>stateCache := None, stateCacheTimestamp := 0\<rparr>"

text \<open>
  \<^verbatim>\<open>parseProcessInfo\<close>. \<open>parse\<close> is \<^verbatim>\<open>JSON.parse\<close> followed by the cast to
  \<^verbatim>\<open>CheeseMintCollectionState\<close>: \<open>None\<close> when \<^verbatim>\<open>JSON.parse\<close> throws. Every error
  thrown inside the \<^verbatim>\<open>try\<close> is caught and replaced by one error.
\<close>

definition parseProcessInfo ::
  "(string \<Rightarrow> CheeseMintCollectionState option) \<Rightarrow> DryRunResult
     \<Rightarrow> js_error + CheeseMintCollectionState" where
  "parseProcessInfo parse result =
     (case (case Messages result of
              Missing \<Rightarrow> Inl (Error ''No messages in dry run result'')
            | NotAnArray \<Rightarrow> Inl (Error ''No messages in dry run result'')
            | Array [] \<Rightarrow> Inl (Error ''No messages in dry run result'')
            | Array (m # ms) \<Rightarrow>
                (case Data m of
                   None \<Rightarrow> Inl (Error ''No message data in dry run result'')
                 | Some firstMessageData \<Rightarrow>
                     if firstMessageData = [] then Inl (Error ''No message data in dry run result'')
                     else (case parse firstMessageData of
                             None \<Rightarrow> Inl (Error ''Unexpected token in JSON'')
                           | Some info \<Rightarrow> Inr info))) of
        Inl err \<Rightarrow> Inl (Error ''Invalid process info format'')
      | Inr info \<Rightarrow> Inr info)"

text \<open>
  \<^verbatim>\<open>getProcessState\<close>; \<open>now\<close> is what \<^verbatim>\<open>Date.now()\<close> returns when the call starts.
  \<open>fetchProcessState\<close> is the part after the cache test.
\<close>

definition fetchProcessState ::
  "(string \<Rightarrow> CheeseMintCollectionState option) \<Rightarrow> AchievementsService \<Rightarrow> int \<Rightarrow> world
     \<Rightarrow> (js_error + CheeseMintCollectionState) \<times> AchievementsService \<times> world" where
  "fetchProcessState parse svc now w =
     (case sendAosDryRun
             \<lparr>processId = service_processId svc, data = None,
              tags = [(''Action'', ''View-State'')]\<rparr> 3 w of
        (Inl err, w1) \<Rightarrow> (Inl err, svc, w1)
      | (Inr result, w1) \<Rightarrow>
          (case parseProcessInfo parse result of
             Inl err \<Rightarrow> (Inl err, svc, w1)
           | Inr info \<Rightarrow>
               (Inr info, svc\<lparr>stateCache := Some info, stateCacheTimestamp := now\<rparr>, w1)))"

definition getProcessState ::
  "(string \<Rightarrow> CheeseMintCollectionState option) \<Rightarrow> AchievementsService \<Rightarrow> bool \<Rightarrow> int
     \<Rightarrow> world \<Rightarrow> (js_error + CheeseMintCollectionState) \<times> AchievementsService \<times> world" where
  "getProcessState parse svc forceRefresh now w =
     (let cacheAge = now - stateCacheTimestamp svc in
      case stateCache svc of
        Some cached \<Rightarrow>
          if \<not> forceRefresh \<and> cacheAge < stateCacheTtlMs svc then (Inr cached, svc, w)
          else fetchProcessState parse svc now w
      | None \<Rightarrow> fetchProcessState parse svc now w)"

text \<open>
  \<^verbatim>\<open>verifyAclPermissions\<close> returns the lines it writes with \<^verbatim>\<open>logger.error\<close> and its
  outcome. An address is enabled when its entry in the role is \<^verbatim>\<open>true\<close>.
\<close>

definition verifyAclPermissions ::
  "AchievementsService \<Rightarrow> CheeseMintCollectionState \<Rightarrow> string list \<times> (js_error + unit)" where
  "verifyAclPermissions svc info =
     (case (case acl info of None \<Rightarrow> None | Some a \<Rightarrow> roles a) of
        None \<Rightarrow> ([], Inl (Error ''No ACL found in process info''))
      | Some rs \<Rightarrow>
          (case map_of rs ''Award-Cheese-Mint'' of
             None \<Rightarrow> ([], Inl (Error ''Award-Cheese-Mint permission not configured in ACL''))
           | Some awardPermissions \<Rightarrow>
               if map_of awardPermissions (walletAddress svc) \<noteq> Some True then
                 (let allowedAddresses =
                        filter (\<lambda>addr. map_of awardPermissions addr = Some True)
                          (map fst awardPermissions)
                  in ([''Wallet '' @ walletAddress svc @ '' is not in Award-Cheese-Mint ACL'',
                       ''Allowed addresses: '' @ join allowedAddresses '', ''],
                      Inl (Error
                        ''Wallet does not have Award-Cheese-Mint permission in AO process'')))
               else ([], Inr ())))"

text \<open>
  \<^verbatim>\<open>loadAchievementIds\<close>: the map is filled before the required names are
  looked for, so it is returned changed also when the function throws.
\<close>

definition loadAchievementIds ::
  "AchievementsService \<Rightarrow> CheeseMintCollectionState
     \<Rightarrow> string list \<times> (js_error + unit) \<times> AchievementsService" where
  "loadAchievementIds svc info =
     (case cheese_mints_by_id info of
        None \<Rightarrow> ([], Inl (Error ''No cheese_mints_by_id found in process info''), svc)
      | Some mintsById \<Rightarrow>
          (let ids = fold (\<lambda>(i, mint) m. Map_set (mint_name mint) i m) mintsById
                       (achievementIdsByName svc);
               svc1 = svc\<lparr>achievementIdsByName := ids\<rparr>;
               missingAchievements =
                 filter (\<lambda>name. map_of ids name = None) REQUIRED_ACHIEVEMENTS
           in if length missingAchievements > 0 then
                ([''Missing required achievements: '' @ join missingAchievements '', '',
                  ''Available achievements: '' @ join (map fst ids) '', ''],
                 Inl (Error (''Required achievements not found: ''
                             @ join missingAchievements '', '')),
                 svc1)
              else ([], Inr (), svc1)))"

text \<open>
  \<^verbatim>\<open>verifyInitialization\<close>: the state comes from \<^verbatim>\<open>this.getProcessState()\<close>, called
  without an argument, so \<^verbatim>\<open>forceRefresh\<close> has its default \<^verbatim>\<open>false\<close>. The log lines
  of the two checks are not part of the outcome.
\<close>

definition verifyInitialization ::
  "(string \<Rightarrow> CheeseMintCollectionState option) \<Rightarrow> AchievementsService \<Rightarrow> int \<Rightarrow> world
     \<Rightarrow> (js_error + unit) \<times> AchievementsService \<times> world" where
  "verifyInitialization parse svc now w =
     (case getProcessState parse svc False now w of
        (Inl err, svc1, w1) \<Rightarrow> (Inl err, svc1, w1)
      | (Inr state, svc1, w1) \<Rightarrow>
          (case snd (verifyAclPermissions svc1 state) of
             Inl err \<Rightarrow> (Inl err, svc1, w1)
           | Inr u \<Rightarrow>
               (case snd (loadAchievementIds svc1 state) of
                  (Inl err, svc2) \<Rightarrow> (Inl err, svc2, w1)
                | (Inr u', svc2) \<Rightarrow> (Inr (), svc2, w1))))"

text \<open>\<^verbatim>\<open>getAchievementId\<close>: an id that is the empty string is falsy and counts as not found.\<close>

definition getAchievementId :: "AchievementsService \<Rightarrow> string \<Rightarrow> string option" where
  "getAchievementId svc achievementName =
     (case map_of (achievementIdsByName svc) achievementName of
        None \<Rightarrow> None
      | Some achievementId \<Rightarrow> if achievementId = [] then None else Some achievementId)"

text \<open>
  \<^verbatim>\<open>hasAchievement\<close>. \<open>awarded\<close> is its reading of the state: indexing a missing
  \<^verbatim>\<open>cheese_mints_by_address\<close> throws a \<^verbatim>\<open>TypeError\<close>.
\<close>

definition awarded :: "CheeseMintCollectionState \<Rightarrow> string \<Rightarrow> string \<Rightarrow> js_error + bool" where
  "awarded state wallet achievementId =
     (case cheese_mints_by_address state of
        None \<Rightarrow> Inl (Error (''Cannot read properties of undefined (reading '' @ wallet @ '')''))
      | Some byAddress \<Rightarrow>
          (case map_of byAddress wallet of
             None \<Rightarrow> Inr False
           | Some awardsByAddress \<Rightarrow> Inr (map_of awardsByAddress achievementId \<noteq> None)))"

definition hasAchievement ::
  "(string \<Rightarrow> CheeseMintCollectionState option) \<Rightarrow> AchievementsService \<Rightarrow> string \<Rightarrow> string
     \<Rightarrow> int \<Rightarrow> world \<Rightarrow> (js_error + bool) \<times> AchievementsService \<times> world" where
  "hasAchievement parse svc wallet achievementId now w =
     (case getProcessState parse svc False now w of
        (Inl err, svc1, w1) \<Rightarrow> (Inl err, svc1, w1)
      | (Inr state, svc1, w1) \<Rightarrow> (awarded state wallet achievementId, svc1, w1))"

text \<open>
  \<^verbatim>\<open>awardAchievement\<close>. The send is the Ledger Client's \<^verbatim>\<open>sendAosMessage\<close> with its
  default of 3 retries; the cache is invalidated on the line after it, inside the
  same \<^verbatim>\<open>try\<close>, and the \<^verbatim>\<open>catch\<close> rethrows what it caught.
\<close>

definition awardAchievement ::
  "(string \<Rightarrow> CheeseMintCollectionState option) \<Rightarrow> AchievementsService \<Rightarrow> string \<Rightarrow> string
     \<Rightarrow> int \<Rightarrow> world \<Rightarrow> (js_error + unit) \<times> AchievementsService \<times> world" where
  "awardAchievement parse svc achievementName wallet now w =
     (case getAchievementId svc achievementName of
        None \<Rightarrow> (Inr (), svc, w)
      | Some achievementId \<Rightarrow>
          (case hasAchievement parse svc wallet achievementId now w of
             (Inl err, svc1, w1) \<Rightarrow> (Inl err, svc1, w1)
           | (Inr hasAchieved, svc1, w1) \<Rightarrow>
               if hasAchieved then (Inr (), svc1, w1)
               else
                 (case sendAosMessage
                         \<lparr>processId = service_processId svc1, data = None,
                          tags = [(''Action'', ''Award-Cheese-Mint''),
                                  (''Cheese-Mint-Id'', achievementId),
                                  (''Award-To-Address'', wallet)]\<rparr> 3 w1 of
                    (Inr sent, w2) \<Rightarrow> (Inr (), invalidateStateCache svc1, w2)
                  | (Inl err, w2) \<Rightarrow> (Inl err, svc1, w2))))"

section \<open>Reward Event Processor (\<^verbatim>\<open>rewards.processor.ts\<close>)\<close>

text \<open>
  What \<^verbatim>\<open>WalletValidator.validateAndNormalize\<close> returns (the fields \<^verbatim>\<open>valid\<close>,
  \<^verbatim>\<open>type\<close>, \<^verbatim>\<open>normalized\<close> and \<^verbatim>\<open>error\<close>). The validator is a parameter \<open>validate\<close>
  of the processor and is taken to return; a missing field is \<open>None\<close>. The wallet
  type is the string of the \<^verbatim>\<open>WalletType\<close> enumeration.
\<close>

record validation =
  v_valid :: bool
  v_type :: "string option"
  v_normalized :: "string option"
  v_error :: "string option"

text \<open>
  A job of the queue: its name and its \<^verbatim>\<open>RewardEventData\<close>. The metadata is opaque.
  The job's id, \<^verbatim>\<open>attemptsMade\<close> and options are read for logging only.
\<close>

record 'm RewardEventData =
  data_eventType :: string
  data_walletAddress :: string
  data_metadata :: "'m option"

record 'm Job =
  job_name :: string
  job_data :: "'m RewardEventData"

text \<open>
  The record a handler returns (\<open>res_wallet\<close> is its field \<^verbatim>\<open>wallet\<close>);
  \<open>processedAt\<close> is the instant that \<^verbatim>\<open>new Date()\<close> reads, before it is formatted.
\<close>

record 'm reward_result =
  success :: bool
  eventType :: string
  res_wallet :: string
  walletType :: string
  processedAt :: int
  metadata :: "'m option"

text \<open>
  The processor holds an \<^verbatim>\<open>AchievementsService\<close> by injection: \<open>award\<close> is its
  \<^verbatim>\<open>awardAchievement\<close>, acting on a state \<open>'s\<close> of its own. \<open>invoke\<close> calls it and
  appends the arguments to the list of invocations made so far; the handlers thread
  that list and the state, so each invocation starts where the one before ended.
\<close>

type_synonym 's award = "string \<Rightarrow> string \<Rightarrow> 's \<Rightarrow> (js_error + unit) \<times> 's"

definition invoke ::
  "'s award \<Rightarrow> string \<Rightarrow> string \<Rightarrow> (string \<times> string) list \<times> 's
     \<Rightarrow> (js_error + unit) \<times> (string \<times> string) list \<times> 's" where
  "invoke award achievementName walletAddr st =
     (case award achievementName walletAddr (snd st) of
        (r, s') \<Rightarrow> (r, fst st @ [(achievementName, walletAddr)], s'))"

definition handleArnsSearch ::
  "'s award \<Rightarrow> int \<Rightarrow> 'm Job \<Rightarrow> string \<Rightarrow> string \<Rightarrow> (string \<times> string) list \<times> 's
     \<Rightarrow> (js_error + 'm reward_result) \<times> (string \<times> string) list \<times> 's" where
  "handleArnsSearch award now job normalizedWallet wType st =
     (case invoke award ACHIEVEMENT_WUZZY_SEARCHER normalizedWallet st of
        (Inl err, st1) \<Rightarrow> (Inl err, st1)
      | (Inr u, st1) \<Rightarrow>
          (case invoke award ACHIEVEMENT_WUZZY_ARNS_SEARCHER normalizedWallet st1 of
             (Inl err, st2) \<Rightarrow> (Inl err, st2)
           | (Inr u', st2) \<Rightarrow>
               (Inr \<lparr>success = True, eventType = ''arns-search'', res_wallet = normalizedWallet,
                     walletType = wType, processedAt = now,
                     metadata = data_metadata (job_data job)\<rparr>, st2)))"

definition handleImageSearch ::
  "'s award \<Rightarrow> int \<Rightarrow> 'm Job \<Rightarrow> string \<Rightarrow> string \<Rightarrow> (string \<times> string) list \<times> 's
     \<Rightarrow> (js_error + 'm reward_result) \<times> (string \<times> string) list \<times> 's" where
  "handleImageSearch award now job normalizedWallet wType st =
     (case invoke award ACHIEVEMENT_WUZZY_SEARCHER normalizedWallet st of
        (Inl err, st1) \<Rightarrow> (Inl err, st1)
      | (Inr u, st1) \<Rightarrow>
          (case invoke award ACHIEVEMENT_WUZZY_IMAGE_SEARCHER normalizedWallet st1 of
             (Inl err, st2) \<Rightarrow> (Inl err, st2)
           | (Inr u', st2) \<Rightarrow>
               (Inr \<lparr>success = True, eventType = ''image-search'', res_wallet = normalizedWallet,
                     walletType = wType, processedAt = now,
                     metadata = data_metadata (job_data job)\<rparr>, st2)))"

definition handleAudioSearch ::
  "'s award \<Rightarrow> int \<Rightarrow> 'm Job \<Rightarrow> string \<Rightarrow> string \<Rightarrow> (string \<times> string) list \<times> 's
     \<Rightarrow> (js_error + 'm reward_result) \<times> (string \<times> string) list \<times> 's" where
  "handleAudioSearch award now job normalizedWallet wType st =
     (case invoke award ACHIEVEMENT_WUZZY_SEARCHER normalizedWallet st of
        (Inl err, st1) \<Rightarrow> (Inl err, st1)
      | (Inr u, st1) \<Rightarrow>
          (case invoke award ACHIEVEMENT_WUZZY_AUDIO_SEARCHER normalizedWallet st1 of
             (Inl err, st2) \<Rightarrow> (Inl err, st2)
           | (Inr u', st2) \<Rightarrow>
               (Inr \<lparr>success = True, eventType = ''audio-search'', res_wallet = normalizedWallet,
                     walletType = wType, processedAt = now,
                     metadata = data_metadata (job_data job)\<rparr>, st2)))"

definition handleVideoSearch ::
  "'s award \<Rightarrow> int \<Rightarrow> 'm Job \<Rightarrow> string \<Rightarrow> string \<Rightarrow> (string \<times> string) list \<times> 's
     \<Rightarrow> (js_error + 'm reward_result) \<times> (string \<times> string) list \<times> 's" where
  "handleVideoSearch award now job normalizedWallet wType st =
     (case invoke award ACHIEVEMENT_WUZZY_SEARCHER normalizedWallet st of
        (Inl err, st1) \<Rightarrow> (Inl err, st1)
      | (Inr u, st1) \<Rightarrow>
          (case invoke award ACHIEVEMENT_WUZZY_VIDEO_SEARCHER normalizedWallet st1 of
             (Inl err, st2) \<Rightarrow> (Inl err, st2)
           | (Inr u', st2) \<Rightarrow>
               (Inr \<lparr>success = True, eventType = ''video-search'', res_wallet = normalizedWallet,
                     walletType = wType, processedAt = now,
                     metadata = data_metadata (job_data job)\<rparr>, st2)))"

text \<open>\<^verbatim>\<open>handleEvent\<close> switches on the name of the job.\<close>

definition handleEvent ::
  "'s award \<Rightarrow> int \<Rightarrow> 'm Job \<Rightarrow> string \<Rightarrow> string \<Rightarrow> (string \<times> string) list \<times> 's
     \<Rightarrow> (js_error + 'm reward_result) \<times> (string \<times> string) list \<times> 's" where
  "handleEvent award now job normalizedWallet wType st =
     (if job_name job = ''arns-search'' then
        handleArnsSearch award now job normalizedWallet wType st
      else if job_name job = ''image-search'' then
        handleImageSearch award now job normalizedWallet wType st
      else if job_name job = ''audio-search'' then
        handleAudioSearch award now job normalizedWallet wType st
      else if job_name job = ''video-search'' then
        handleVideoSearch award now job normalizedWallet wType st
      else (Inl (Error (''Unknown job type: '' @ job_name job)), st))"

text \<open>
  \<^verbatim>\<open>process\<close>: its \<^verbatim>\<open>catch\<close> logs and rethrows the error it caught, so the outcome
  of the \<^verbatim>\<open>try\<close> block is the outcome of the function. A missing
  \<^verbatim>\<open>validation.error\<close> prints as \<^verbatim>\<open>undefined\<close>; an empty string is falsy.
\<close>

definition process ::
  "(string \<Rightarrow> validation) \<Rightarrow> 's award \<Rightarrow> int \<Rightarrow> 'm Job \<Rightarrow> (string \<times> string) list \<times> 's
     \<Rightarrow> (js_error + 'm reward_result) \<times> (string \<times> string) list \<times> 's" where
  "process validate award now job st =
     (let v = validate (data_walletAddress (job_data job)) in
      if \<not> v_valid v then
        (Inl (Error (''Wallet validation failed: ''
                     @ (case v_error v of None \<Rightarrow> ''undefined'' | Some e \<Rightarrow> e))), st)
      else
        (case (v_normalized v, v_type v) of
           (Some n, Some t) \<Rightarrow>
             if n = [] \<or> t = [] then
               (Inl (Error ''Validation succeeded but missing normalized data''), st)
             else handleEvent award now job n t st
         | _ \<Rightarrow> (Inl (Error ''Validation succeeded but missing normalized data''), st)))"

section \<open>Observations on traces and replies\<close>

text \<open>
  The backoff sleeps of a trace, the Ledger Client dry-run operations (remote queries)
  of a trace, and its signed-send operations, each in the order they occurred.
\<close>

fun sleep_of :: "event \<Rightarrow> int list" where
  "sleep_of (Sleep ms) = [ms]"
| "sleep_of e = []"

definition sleeps :: "event list \<Rightarrow> int list" where
  "sleeps tr = concat (map sleep_of tr)"

fun query_of :: "event \<Rightarrow> event list" where
  "query_of (DryRunOp p t) = [DryRunOp p t]"
| "query_of e = []"

definition queries :: "event list \<Rightarrow> event list" where
  "queries tr = concat (map query_of tr)"

fun send_of :: "event \<Rightarrow> event list" where
  "send_of (SendOp p t) = [SendOp p t]"
| "send_of e = []"

definition sends :: "event list \<Rightarrow> event list" where
  "sends tr = concat (map send_of tr)"

text \<open>
  An attempt is retried when it failed with an error that the code classifies as a
  server error: its message contains \<^verbatim>\<open>500\<close>.
\<close>

fun retryable :: "js_error + 'a \<Rightarrow> bool" where
  "retryable (Inl err) = str_includes (message err) ''500''"
| "retryable (Inr r) = False"

text \<open>
  The sleeps of \<open>k\<close> failed attempts in a row, the first one being attempt \<open>a\<close>.
\<close>

definition backoff :: "nat \<Rightarrow> nat \<Rightarrow> int list" where
  "backoff a k = map (\<lambda>i. 2 ^ (a + i) * 2000) [0..<k]"

text \<open>
  One attempt of \<^verbatim>\<open>sendAosMessage\<close> (the body of its \<^verbatim>\<open>try\<close>), and what the attempt
  that makes the \<open>n\<close>-th \<^verbatim>\<open>aoMessage\<close> call comes to: the error of the submission, or
  the error of the result fetch, or the message id with the result.
\<close>

definition send_attempt ::
  "SendAosBaseOptions \<Rightarrow> world \<Rightarrow> (js_error + string \<times> string) \<times> world" where
  "send_attempt opts w =
     (case aoMessage opts w of
        (Inl err, w1) \<Rightarrow> (Inl err, w1)
      | (Inr messageId, w1) \<Rightarrow>
          (case aoResult messageId (processId opts) w1 of
             (Inl err, w2) \<Rightarrow> (Inl err, w2)
           | (Inr result, w2) \<Rightarrow> (Inr (messageId, result), w2)))"

definition send_outcome :: "world \<Rightarrow> nat \<Rightarrow> js_error + string \<times> string" where
  "send_outcome w n =
     (case message_reply w n of
        Inl err \<Rightarrow> Inl err
      | Inr messageId \<Rightarrow>
          (case result_reply w n of
             Inl err \<Rightarrow> Inl err
           | Inr result \<Rightarrow> Inr (messageId, result)))"

text \<open>
  The options of the state query that \<^verbatim>\<open>getProcessState\<close> sends, and those of the
  award message that \<^verbatim>\<open>awardAchievement\<close> sends.
\<close>

definition view_state :: "AchievementsService \<Rightarrow> SendAosBaseOptions" where
  "view_state svc =
     \<lparr>processId = service_processId svc, data = None, tags = [(''Action'', ''View-State'')]\<rparr>"

definition award_message :: "AchievementsService \<Rightarrow> string \<Rightarrow> string \<Rightarrow> SendAosBaseOptions" where
  "award_message svc achievementId wal =
     \<lparr>processId = service_processId svc, data = None,
      tags = [(''Action'', ''Award-Cheese-Mint''), (''Cheese-Mint-Id'', achievementId),
              (''Award-To-Address'', wal)]\<rparr>"

text \<open>
  The two checks that \<^verbatim>\<open>verifyInitialization\<close> applies to the state it has got.
\<close>

definition startup_checks ::
  "AchievementsService \<Rightarrow> CheeseMintCollectionState \<Rightarrow> (js_error + unit) \<times> AchievementsService" where
  "startup_checks svc state =
     (case snd (verifyAclPermissions svc state) of
        Inl err \<Rightarrow> (Inl err, svc)
      | Inr u \<Rightarrow>
          (case snd (loadAchievementIds svc state) of
             (Inl err, svc2) \<Rightarrow> (Inl err, svc2)
           | (Inr u', svc2) \<Rightarrow> (Inr (), svc2)))"

section \<open>The words of the claims\<close>

text \<open>
  A dry-run response has no payload that parses as a state snapshot: no messages
  array, an empty one, a first message without data (or with empty data), or data
  that \<^verbatim>\<open>JSON.parse\<close> rejects.
\<close>

definition unparsable :: "(string \<Rightarrow> CheeseMintCollectionState option) \<Rightarrow> DryRunResult \<Rightarrow> bool" where
  "unparsable parse result =
     (case Messages result of
        Missing \<Rightarrow> True
      | NotAnArray \<Rightarrow> True
      | Array [] \<Rightarrow> True
      | Array (m # ms) \<Rightarrow>
          (case Data m of None \<Rightarrow> True | Some d \<Rightarrow> d = [] \<or> parse d = None))"

text \<open>
  Read off a ledger state: the roles of its ACL section when it has them, the
  permissions of the \<^verbatim>\<open>Award-Cheese-Mint\<close> role when the state has them, whether an address is enabled under that role, the names of
  the catalog entries, and the required names that the catalog lacks.
\<close>

definition acl_roles :: "CheeseMintCollectionState \<Rightarrow> bool js_object js_object option" where
  "acl_roles info = (case acl info of None \<Rightarrow> None | Some a \<Rightarrow> roles a)"

definition role_permissions :: "CheeseMintCollectionState \<Rightarrow> bool js_object option" where
  "role_permissions info =
     (case acl info of
        None \<Rightarrow> None
      | Some a \<Rightarrow> (case roles a of None \<Rightarrow> None | Some rs \<Rightarrow> map_of rs ''Award-Cheese-Mint''))"

definition acl_enabled :: "CheeseMintCollectionState \<Rightarrow> string \<Rightarrow> bool" where
  "acl_enabled info addr =
     (case role_permissions info of None \<Rightarrow> False | Some perms \<Rightarrow> map_of perms addr = Some True)"

definition catalog_names :: "CheeseMintCollectionState \<Rightarrow> string list" where
  "catalog_names info =
     (case cheese_mints_by_id info of None \<Rightarrow> [] | Some ms \<Rightarrow> map (\<lambda>(i, m). mint_name m) ms)"

definition missing_achievements :: "CheeseMintCollectionState \<Rightarrow> string list" where
  "missing_achievements info =
     filter (\<lambda>n. n \<notin> set (catalog_names info)) REQUIRED_ACHIEVEMENTS"

text \<open>
  The routing table of the processor: the achievement that an event type grants
  after the generic one.
\<close>

definition event_achievement :: "string \<Rightarrow> string option" where
  "event_achievement t =
     (if t = ''arns-search'' then Some ACHIEVEMENT_WUZZY_ARNS_SEARCHER
      else if t = ''image-search'' then Some ACHIEVEMENT_WUZZY_IMAGE_SEARCHER
      else if t = ''audio-search'' then Some ACHIEVEMENT_WUZZY_AUDIO_SEARCHER
      else if t = ''video-search'' then Some ACHIEVEMENT_WUZZY_VIDEO_SEARCHER
      else None)"

section \<open>Example inputs\<close>

text \<open>
  Options of a dry run; a dry-run reply with one message carrying a payload; a
  remote side that answers the first two dry runs with a server error, fails the
  first submission and the result fetch of the second with a server error, and
  succeeds otherwise; and a remote side that answers every dry run and every result
  fetch with a server error, the third one told apart by its message.
\<close>

definition some_opts :: SendAosBaseOptions where
  "some_opts = \<lparr>processId = ''ledger'', data = None, tags = [(''Action'', ''View-State'')]\<rparr>"

definition snapshot_reply :: "string \<Rightarrow> js_error + DryRunResult" where
  "snapshot_reply payload = Inr \<lparr>Messages = Array [\<lparr>Data = Some payload\<rparr>]\<rparr>"

definition flaky_world :: world where
  "flaky_world =
     \<lparr>dryrun_reply = (\<lambda>n. if n < 2 then Inl (Error ''status 500'') else snapshot_reply ''s''),
      message_reply = (\<lambda>n. if n = 0 then Inl (Error ''500 on submit'') else Inr ''m''),
      result_reply = (\<lambda>n. if n = 1 then Inl (Error ''500 on result'') else Inr ''ok''),
      dryruns = 0, messages = 0, trace = []\<rparr>"

definition down_world :: world where
  "down_world =
     \<lparr>dryrun_reply = (\<lambda>n. if n = 2 then Inl (Error ''500 third'') else Inl (Error ''500'')),
      message_reply = (\<lambda>n. Inr ''m''),
      result_reply = (\<lambda>n. if n = 2 then Inl (Error ''500 third'') else Inl (Error ''500'')),
      dryruns = 0, messages = 0, trace = []\<rparr>"

text \<open>
  A ledger with the five required achievements and three addresses under the
  \<^verbatim>\<open>Award-Cheese-Mint\<close> role, before and after the user's wallet has been awarded the
  first achievement; a ledger whose catalog lacks four of the required achievements;
  a ledger without an ACL section and one whose ACL lacks the role; and a decoder
  that knows the five snapshots by the payloads \<^verbatim>\<open>before\<close>, \<^verbatim>\<open>after\<close>,
  \<^verbatim>\<open>incomplete\<close>, \<^verbatim>\<open>no-acl\<close> and \<^verbatim>\<open>no-role\<close>.
\<close>

definition mint :: "string \<Rightarrow> string \<Rightarrow> string \<times> CheeseMint" where
  "mint i n =
     (i, \<lparr>mint_id = i, mint_name = n, created_at = 0, updated_at = None,
          created_by = ''owner'', description = [], points = 10, icon = [],
          category = ''search''\<rparr>)"

definition ledger_before :: CheeseMintCollectionState where
  "ledger_before =
     \<lparr>owner = ''owner'',
      acl = Some \<lparr>roles = Some [(''Award-Cheese-Mint'',
                                 [(''service-wallet'', True), (''retired-wallet'', False),
                                  (''other-wallet'', True)])]\<rparr>,
      cheese_mints_by_id =
        Some [mint ''1'' ''Wuzzy Searcher'', mint ''2'' ''Wuzzy Video Searcher'',
              mint ''3'' ''Wuzzy Image Searcher'', mint ''4'' ''Wuzzy ArNS Searcher'',
              mint ''5'' ''Wuzzy Audio Searcher''],
      cheese_mints_by_address = Some []\<rparr>"

definition ledger_after :: CheeseMintCollectionState where
  "ledger_after =
     ledger_before\<lparr>cheese_mints_by_address :=
       Some [(''user-wallet'',
              [(''1'', \<lparr>awarded_by = ''service-wallet'', awarded_at = 1000,
                        message_id = ''msg-1''\<rparr>)])]\<rparr>"

definition ledger_incomplete :: CheeseMintCollectionState where
  "ledger_incomplete =
     ledger_before\<lparr>cheese_mints_by_id :=
       Some [mint ''1'' ''Wuzzy Searcher'', mint ''7'' ''Wuzzy Poet'']\<rparr>"

definition ledger_no_acl :: CheeseMintCollectionState where
  "ledger_no_acl = ledger_before\<lparr>acl := None\<rparr>"

definition ledger_no_role :: CheeseMintCollectionState where
  "ledger_no_role =
     ledger_before\<lparr>acl := Some \<lparr>roles = Some [(''Admin'', [(''service-wallet'', True)])]\<rparr>\<rparr>"

definition parse_example :: "string \<Rightarrow> CheeseMintCollectionState option" where
  "parse_example payload =
     (if payload = ''before'' then Some ledger_before
      else if payload = ''after'' then Some ledger_after
      else if payload = ''incomplete'' then Some ledger_incomplete
      else if payload = ''no-acl'' then Some ledger_no_acl
      else if payload = ''no-role'' then Some ledger_no_role
      else None)"

text \<open>
  The service as constructed; after its first successful state fetch at time 1000;
  after its startup has loaded the ids; after startup with the first snapshot cached
  at time 1000; and a service whose wallet the example ledger does not list under the
  role.
\<close>

definition fresh_service :: AchievementsService where
  "fresh_service = new_AchievementsService ''ledger'' ''service-wallet'' None"

definition cached_service :: AchievementsService where
  "cached_service = fresh_service\<lparr>stateCache := Some ledger_before, stateCacheTimestamp := 1000\<rparr>"

definition ready_service :: AchievementsService where
  "ready_service =
     fresh_service\<lparr>achievementIdsByName :=
       [(''Wuzzy Searcher'', ''1''), (''Wuzzy Video Searcher'', ''2''),
        (''Wuzzy Image Searcher'', ''3''), (''Wuzzy ArNS Searcher'', ''4''),
        (''Wuzzy Audio Searcher'', ''5'')]\<rparr>"

definition cached_ready_service :: AchievementsService where
  "cached_ready_service =
     ready_service\<lparr>stateCache := Some ledger_before, stateCacheTimestamp := 1000\<rparr>"

definition stranger_service :: AchievementsService where
  "stranger_service = new_AchievementsService ''ledger'' ''stranger-wallet'' None"

text \<open>
  Remote sides. One that accepts every message and answers the dry runs as given;
  the world after one dry-run operation that needed one attempt; one that answers
  dry runs with the first snapshot and rejects every submitted message with an error
  that is not a server error; one that answers the first dry run with the snapshot
  from before the award and every later one with the snapshot after it; and one like
  the last, except that the result fetch of the first submitted message fails with a
  server error.
\<close>

definition replying :: "(nat \<Rightarrow> js_error + DryRunResult) \<Rightarrow> world" where
  "replying f =
     \<lparr>dryrun_reply = f, message_reply = (\<lambda>n. Inr ''msg-1''), result_reply = (\<lambda>n. Inr ''ok''),
      dryruns = 0, messages = 0, trace = []\<rparr>"

definition queried :: "world \<Rightarrow> world" where
  "queried w =
     emit (AoDryRun ''ledger'' [(''Action'', ''View-State'')])
       (emit (DryRunOp ''ledger'' [(''Action'', ''View-State'')]) w\<lparr>dryruns := Suc (dryruns w)\<rparr>)"

definition rejecting_world :: world where
  "rejecting_world =
     (replying (\<lambda>n. snapshot_reply ''before''))
       \<lparr>message_reply := (\<lambda>n. Inl (Error ''invalid signature''))\<rparr>"



text \<open>
  Stand-ins for the processor's collaborators. A validator that accepts one Arweave
  address as it is and rejects every other string; a mock of \<^verbatim>\<open>awardAchievement\<close>
  whose state is the list of outcomes queued for its next invocations (it resolves
  when the list is empty); the \<^verbatim>\<open>awardAchievement\<close> of a service whose clock reads
  \<open>now\<close>, acting on the service and the world; and two jobs.
\<close>

definition validate_example :: "string \<Rightarrow> validation" where
  "validate_example raw =
     (if raw = ''vLRHFqCw1uHu75xqB4fCDW-QxpkpJxBtFD9g4QYUbfw'' then
        \<lparr>v_valid = True, v_type = Some ''arweave'', v_normalized = Some raw, v_error = None\<rparr>
      else
        \<lparr>v_valid = False, v_type = None, v_normalized = None,
         v_error = Some ''Invalid wallet address format''\<rparr>)"

definition mock_award :: "(js_error + unit) list award" where
  "mock_award achievementName walletAddr queue =
     (case queue of [] \<Rightarrow> (Inr (), []) | r # rest \<Rightarrow> (r, rest))"

definition service_award ::
  "(string \<Rightarrow> CheeseMintCollectionState option) \<Rightarrow> int \<Rightarrow> (AchievementsService \<times> world) award" where
  "service_award parse now achievementName walletAddr st =
     (case awardAchievement parse (fst st) achievementName walletAddr now (snd st) of
        (r, svc', w') \<Rightarrow> (r, svc', w'))"

definition arns_job :: "string Job" where
  "arns_job =
     \<lparr>job_name = ''arns-search'',
      job_data = \<lparr>data_eventType = ''arns-search'',
                  data_walletAddress = ''vLRHFqCw1uHu75xqB4fCDW-QxpkpJxBtFD9g4QYUbfw'',
                  data_metadata = Some ''searchQuery: test''\<rparr>\<rparr>"

definition invalid_job :: "string Job" where
  "invalid_job =
     \<lparr>job_name = ''arns-search'',
      job_data = \<lparr>data_eventType = ''arns-search'',
                  data_walletAddress = ''invalid-wallet-address'',
                  data_metadata = None\<rparr>\<rparr>"

section \<open>Lemmas about the Ledger Client\<close>

lemma sleeps_append [simp]: "sleeps (xs @ ys) = sleeps xs @ sleeps ys"
  by (simp add: sleeps_def)

lemma sleeps_simps [simp]:
  "sleeps [] = []"
  "sleeps (Sleep ms # tr) = ms # sleeps tr"
  "sleeps (DryRunOp p t # tr) = sleeps tr"
  "sleeps (AoDryRun p t # tr) = sleeps tr"
  "sleeps (SendOp p t # tr) = sleeps tr"
  "sleeps (AoMessage p t # tr) = sleeps tr"
  "sleeps (AoResult m p # tr) = sleeps tr"
  by (simp_all add: sleeps_def)

lemma backoff_0 [simp]: "backoff a 0 = []"
  by (simp add: backoff_def)

lemma backoff_Suc: "backoff a (Suc k) = (2 ^ a * 2000) # backoff (Suc a) k"
  by (simp add: backoff_def map_upt_Suc del: upt_Suc)

declare sendAosDryRun_loop.simps [simp del]

declare sendAosMessage_loop.simps [simp del]

lemma retryable_Inl: "retryable x \<Longrightarrow> \<exists>e. x = Inl e \<and> str_includes (message e) ''500''"
  by (cases x) auto

lemma dry_loop_retry:
  assumes "\<forall>i<k. retryable (dryrun_reply w (dryruns w + i))" and "int (a + k) \<le> retries"
  shows "\<exists>w'. sendAosDryRun_loop opts retries a le w
               = sendAosDryRun_loop opts retries (a + k)
                   (if k = 0 then le else Some (projl (dryrun_reply w (dryruns w + k - 1)))) w'
             \<and> dryrun_reply w' = dryrun_reply w \<and> message_reply w' = message_reply w
             \<and> result_reply w' = result_reply w
             \<and> dryruns w' = dryruns w + k \<and> messages w' = messages w
             \<and> sleeps (trace w') = sleeps (trace w) @ backoff a k"
  using assms
proof (induction k arbitrary: a le w)
  case 0
  show ?case by (rule exI[of _ w]) simp
next
  case (Suc k)
  from Suc.prems(1) have "retryable (dryrun_reply w (dryruns w + 0))" by blast
  then obtain e where e: "dryrun_reply w (dryruns w) = Inl e" "str_includes (message e) ''500''"
    using retryable_Inl by fastforce
  define w1 where "w1 = setTimeout (2 ^ a * 2000) (snd (aoDryRun opts w))"
  have w1: "dryrun_reply w1 = dryrun_reply w" "message_reply w1 = message_reply w"
    "result_reply w1 = result_reply w" "dryruns w1 = Suc (dryruns w)" "messages w1 = messages w"
    "sleeps (trace w1) = sleeps (trace w) @ [2 ^ a * 2000]"
    by (simp_all add: w1_def setTimeout_def aoDryRun_def emit_def)
  have step: "sendAosDryRun_loop opts retries a le w
                = sendAosDryRun_loop opts retries (Suc a) (Some e) w1"
    using Suc.prems(2) e
    by (subst sendAosDryRun_loop.simps) (simp add: w1_def aoDryRun_def)
  have "\<forall>i<k. retryable (dryrun_reply w1 (dryruns w1 + i))"
    using Suc.prems(1) w1 by (metis Suc_less_eq add_Suc_shift add_Suc_right)
  moreover have "int (Suc a + k) \<le> retries" using Suc.prems(2) by simp
  ultimately obtain w' where w':
    "sendAosDryRun_loop opts retries (Suc a) (Some e) w1
       = sendAosDryRun_loop opts retries (Suc a + k)
           (if k = 0 then Some e else Some (projl (dryrun_reply w1 (dryruns w1 + k - 1)))) w'"
    "dryrun_reply w' = dryrun_reply w1" "message_reply w' = message_reply w1"
    "result_reply w' = result_reply w1"
    "dryruns w' = dryruns w1 + k" "messages w' = messages w1"
    "sleeps (trace w') = sleeps (trace w1) @ backoff (Suc a) k"
    using Suc.IH[of w1 "Suc a" "Some e"] by blast
  have le': "(if k = 0 then Some e else Some (projl (dryrun_reply w1 (dryruns w1 + k - 1))))
             = Some (projl (dryrun_reply w (dryruns w + Suc k - 1)))"
    using e w1 by (cases k) simp_all
  show ?case
    apply (rule exI[of _ w'])
    using step w' w1 le' by (simp add: backoff_Suc)
qed

lemma dry_loop_stop:
  assumes "int a < retries" and "\<not> retryable (dryrun_reply w (dryruns w))"
  shows "sendAosDryRun_loop opts retries a le w
           = (dryrun_reply w (dryruns w), snd (aoDryRun opts w))"
  using assms
  by (subst sendAosDryRun_loop.simps)
     (cases "dryrun_reply w (dryruns w)"; simp add: aoDryRun_def)

lemma dry_loop_exhausted:
  assumes "\<not> int a < retries"
  shows "sendAosDryRun_loop opts retries a le w
           = (Inl (case le of Some e \<Rightarrow> e | None \<Rightarrow> Error ''Unknown error occurred''), w)"
  using assms
  by (subst sendAosDryRun_loop.simps) (simp split: option.splits)

lemma queries_append [simp]: "queries (xs @ ys) = queries xs @ queries ys"
  by (simp add: queries_def)

lemma sends_append [simp]: "sends (xs @ ys) = sends xs @ sends ys"
  by (simp add: sends_def)

lemma queries_simps [simp]:
  "queries [] = []"
  "queries (Sleep ms # tr) = queries tr"
  "queries (DryRunOp p t # tr) = DryRunOp p t # queries tr"
  "queries (AoDryRun p t # tr) = queries tr"
  "queries (SendOp p t # tr) = queries tr"
  "queries (AoMessage p t # tr) = queries tr"
  "queries (AoResult m p # tr) = queries tr"
  by (simp_all add: queries_def)

lemma sends_simps [simp]:
  "sends [] = []"
  "sends (Sleep ms # tr) = sends tr"
  "sends (DryRunOp p t # tr) = sends tr"
  "sends (AoDryRun p t # tr) = sends tr"
  "sends (SendOp p t # tr) = SendOp p t # sends tr"
  "sends (AoMessage p t # tr) = sends tr"
  "sends (AoResult m p # tr) = sends tr"
  by (simp_all add: sends_def)

lemma dry_loop_frame:
  "sendAosDryRun_loop opts retries a le w = (res, w') \<Longrightarrow>
     dryrun_reply w' = dryrun_reply w \<and> message_reply w' = message_reply w
     \<and> result_reply w' = result_reply w \<and> messages w' = messages w
     \<and> queries (trace w') = queries (trace w) \<and> sends (trace w') = sends (trace w)
     \<and> dryruns w \<le> dryruns w' \<and> int (dryruns w') \<le> int (dryruns w) + max 0 (retries - int a)"
proof (induction opts retries a le w arbitrary: res w' rule: sendAosDryRun_loop.induct)
  case (1 opts retries attempts lastError w)
  show ?case
  proof (cases "int attempts < retries")
    case False
    with "1.prems" show ?thesis
      by (subst (asm) sendAosDryRun_loop.simps) (auto split: option.splits)
  next
    case True
    show ?thesis
    proof (cases "retryable (dryrun_reply w (dryruns w))")
      case False
      with True "1.prems" show ?thesis
        by (auto simp: dry_loop_stop aoDryRun_def emit_def)
    next
      case r: True
      then obtain e where e: "dryrun_reply w (dryruns w) = Inl e"
        "str_includes (message e) ''500''"
        using retryable_Inl by blast
      define w1 where "w1 = snd (aoDryRun opts w)"
      have eq: "aoDryRun opts w = (Inl e, w1)"
        by (simp add: w1_def aoDryRun_def e)
      have "sendAosDryRun_loop opts retries (attempts + 1) (Some e)
              (setTimeout (2 ^ attempts * 2000) w1) = (res, w')"
        using "1.prems" True e eq
        by (subst (asm) sendAosDryRun_loop.simps) simp
      from "1.IH"[OF True eq[symmetric] refl e(2) this]
      show ?thesis using True
        by (auto simp: w1_def aoDryRun_def emit_def setTimeout_def)
    qed
  qed
qed

lemma send_attempt_fst: "fst (send_attempt opts w) = send_outcome w (messages w)"
  by (simp add: send_attempt_def send_outcome_def aoMessage_def aoResult_def emit_def
           split: sum.splits)

lemma send_attempt_snd:
  "dryrun_reply (snd (send_attempt opts w)) = dryrun_reply w"
  "message_reply (snd (send_attempt opts w)) = message_reply w"
  "result_reply (snd (send_attempt opts w)) = result_reply w"
  "dryruns (snd (send_attempt opts w)) = dryruns w"
  "messages (snd (send_attempt opts w)) = Suc (messages w)"
  "sleeps (trace (snd (send_attempt opts w))) = sleeps (trace w)"
  "queries (trace (snd (send_attempt opts w))) = queries (trace w)"
  "sends (trace (snd (send_attempt opts w))) = sends (trace w)"
  by (simp_all add: send_attempt_def aoMessage_def aoResult_def emit_def split: sum.splits)

lemma send_loop_unfold:
  "sendAosMessage_loop opts retries a le w =
     (if int a < retries then
        (case send_attempt opts w of
           (Inr r, w2) \<Rightarrow> (Inr r, w2)
         | (Inl err, w2) \<Rightarrow>
             if str_includes (message err) ''500'' then
               sendAosMessage_loop opts retries (a + 1) (Some err)
                 (setTimeout (2 ^ a * 2000) w2)
             else (Inl err, w2))
      else (Inl (case le of Some e \<Rightarrow> e | None \<Rightarrow> Error ''Unknown error occurred''), w))"
  by (subst sendAosMessage_loop.simps) (simp add: send_attempt_def split: option.splits)

lemma send_loop_stop:
  assumes "int a < retries" and "\<not> retryable (send_outcome w (messages w))"
  shows "sendAosMessage_loop opts retries a le w
           = (send_outcome w (messages w), snd (send_attempt opts w))"
proof -
  obtain x w2 where x: "send_attempt opts w = (x, w2)" by (cases "send_attempt opts w")
  with send_attempt_fst[of opts w] have "x = send_outcome w (messages w)" by simp
  with assms x show ?thesis
    by (subst send_loop_unfold) (cases "send_outcome w (messages w)"; simp)
qed

lemma send_loop_exhausted:
  assumes "\<not> int a < retries"
  shows "sendAosMessage_loop opts retries a le w
           = (Inl (case le of Some e \<Rightarrow> e | None \<Rightarrow> Error ''Unknown error occurred''), w)"
  using assms by (subst send_loop_unfold) simp

lemma send_loop_step:
  assumes "int a < retries" and "send_outcome w (messages w) = Inl e"
    and "str_includes (message e) ''500''"
  shows "sendAosMessage_loop opts retries a le w
           = sendAosMessage_loop opts retries (Suc a) (Some e)
               (setTimeout (2 ^ a * 2000) (snd (send_attempt opts w)))"
proof -
  obtain x w2 where x: "send_attempt opts w = (x, w2)" by (cases "send_attempt opts w")
  with send_attempt_fst[of opts w] have "x = send_outcome w (messages w)" by simp
  with assms x show ?thesis
    by (subst send_loop_unfold) simp
qed

lemma send_loop_retry:
  assumes "\<forall>i<k. retryable (send_outcome w (messages w + i))" and "int (a + k) \<le> retries"
  shows "\<exists>w'. sendAosMessage_loop opts retries a le w
               = sendAosMessage_loop opts retries (a + k)
                   (if k = 0 then le else Some (projl (send_outcome w (messages w + k - 1)))) w'
             \<and> dryrun_reply w' = dryrun_reply w \<and> message_reply w' = message_reply w
             \<and> result_reply w' = result_reply w
             \<and> dryruns w' = dryruns w \<and> messages w' = messages w + k
             \<and> sleeps (trace w') = sleeps (trace w) @ backoff a k"
  using assms
proof (induction k arbitrary: a le w)
  case 0
  show ?case by (rule exI[of _ w]) simp
next
  case (Suc k)
  from Suc.prems(1) have "retryable (send_outcome w (messages w + 0))" by blast
  then obtain e where e: "send_outcome w (messages w) = Inl e" "str_includes (message e) ''500''"
    using retryable_Inl by fastforce
  define w1 where "w1 = setTimeout (2 ^ a * 2000) (snd (send_attempt opts w))"
  have w1: "dryrun_reply w1 = dryrun_reply w" "message_reply w1 = message_reply w"
    "result_reply w1 = result_reply w" "dryruns w1 = dryruns w" "messages w1 = Suc (messages w)"
    "sleeps (trace w1) = sleeps (trace w) @ [2 ^ a * 2000]"
    by (simp_all add: w1_def setTimeout_def emit_def send_attempt_snd)
  have out: "send_outcome w1 = send_outcome w"
    unfolding fun_eq_iff send_outcome_def by (simp only: w1) simp
  have step: "sendAosMessage_loop opts retries a le w
                = sendAosMessage_loop opts retries (Suc a) (Some e) w1"
    using Suc.prems(2) e by (simp add: send_loop_step w1_def)
  have "\<forall>i<k. retryable (send_outcome w1 (messages w1 + i))"
    using Suc.prems(1) w1 out by (metis Suc_less_eq add_Suc_shift add_Suc_right)
  moreover have "int (Suc a + k) \<le> retries" using Suc.prems(2) by simp
  ultimately obtain w' where w':
    "sendAosMessage_loop opts retries (Suc a) (Some e) w1
       = sendAosMessage_loop opts retries (Suc a + k)
           (if k = 0 then Some e else Some (projl (send_outcome w1 (messages w1 + k - 1)))) w'"
    "dryrun_reply w' = dryrun_reply w1" "message_reply w' = message_reply w1"
    "result_reply w' = result_reply w1"
    "dryruns w' = dryruns w1" "messages w' = messages w1 + k"
    "sleeps (trace w') = sleeps (trace w1) @ backoff (Suc a) k"
    using Suc.IH[of w1 "Suc a" "Some e"] by blast
  have le': "(if k = 0 then Some e else Some (projl (send_outcome w1 (messages w1 + k - 1))))
             = Some (projl (send_outcome w (messages w + Suc k - 1)))"
    using e w1 out by (cases k) simp_all
  show ?case
    apply (rule exI[of _ w'])
    using step w' w1 le' by (simp add: backoff_Suc)
qed

lemma send_loop_frame:
  "sendAosMessage_loop opts retries a le w = (res, w') \<Longrightarrow>
     dryrun_reply w' = dryrun_reply w \<and> message_reply w' = message_reply w
     \<and> result_reply w' = result_reply w \<and> dryruns w' = dryruns w
     \<and> queries (trace w') = queries (trace w) \<and> sends (trace w') = sends (trace w)
     \<and> messages w \<le> messages w' \<and> int (messages w') \<le> int (messages w) + max 0 (retries - int a)"
proof (induction opts retries a le w arbitrary: res w' rule: sendAosMessage_loop.induct)
  case (1 opts retries attempts lastError w)
  show ?case
  proof (cases "int attempts < retries")
    case False
    with "1.prems" show ?thesis
      by (auto simp: send_loop_exhausted)
  next
    case True
    show ?thesis
    proof (cases "retryable (send_outcome w (messages w))")
      case False
      with True "1.prems" show ?thesis
        by (auto simp: send_loop_stop send_attempt_snd)
    next
      case r: True
      then obtain e where e: "send_outcome w (messages w) = Inl e"
        "str_includes (message e) ''500''"
        using retryable_Inl by blast
      define w1 where "w1 = snd (send_attempt opts w)"
      have eq: "send_attempt opts w = (Inl e, w1)"
        using send_attempt_fst[of opts w] e by (simp add: w1_def prod_eq_iff)
      have run: "sendAosMessage_loop opts retries (attempts + 1) (Some e)
              (setTimeout (2 ^ attempts * 2000) w1) = (res, w')"
        using "1.prems" True e by (simp add: send_loop_step w1_def)
      have "dryrun_reply w' = dryrun_reply (setTimeout (2 ^ attempts * 2000) w1)
          \<and> message_reply w' = message_reply (setTimeout (2 ^ attempts * 2000) w1)
          \<and> result_reply w' = result_reply (setTimeout (2 ^ attempts * 2000) w1)
          \<and> dryruns w' = dryruns (setTimeout (2 ^ attempts * 2000) w1)
          \<and> queries (trace w') = queries (trace (setTimeout (2 ^ attempts * 2000) w1))
          \<and> sends (trace w') = sends (trace (setTimeout (2 ^ attempts * 2000) w1))
          \<and> messages (setTimeout (2 ^ attempts * 2000) w1) \<le> messages w'
          \<and> int (messages w') \<le> int (messages (setTimeout (2 ^ attempts * 2000) w1))
                                  + max 0 (retries - int (attempts + 1))"
        using "1.IH"[OF True eq[symmetric, unfolded send_attempt_def] refl e(2) run] by simp
      then show ?thesis using True
        by (auto simp: w1_def send_attempt_snd emit_def setTimeout_def)
    qed
  qed
qed

lemma backoff_map: "backoff 0 k = map (\<lambda>i. 2 ^ i * 2000) [0..<k]"
  by (simp add: backoff_def)

lemma dry_run_settles:
  assumes "int k < retries" and "\<forall>i<k. retryable (dryrun_reply w (dryruns w + i))"
    and "\<not> retryable (dryrun_reply w (dryruns w + k))"
  shows "fst (sendAosDryRun opts retries w) = dryrun_reply w (dryruns w + k)
       \<and> dryruns (snd (sendAosDryRun opts retries w)) = dryruns w + k + 1
       \<and> sleeps (trace (snd (sendAosDryRun opts retries w))) = sleeps (trace w) @ backoff 0 k"
proof -
  define w0 where "w0 = emit (DryRunOp (processId opts) (tags opts)) w"
  have w0: "dryrun_reply w0 = dryrun_reply w" "dryruns w0 = dryruns w"
    "sleeps (trace w0) = sleeps (trace w)"
    by (simp_all add: w0_def emit_def)
  from assms w0 have "\<forall>i<k. retryable (dryrun_reply w0 (dryruns w0 + i))" by simp
  moreover have "int (0 + k) \<le> retries" using assms(1) by simp
  ultimately obtain w' where w':
    "sendAosDryRun_loop opts retries 0 None w0
       = sendAosDryRun_loop opts retries (0 + k)
           (if k = 0 then None else Some (projl (dryrun_reply w0 (dryruns w0 + k - 1)))) w'"
    "dryrun_reply w' = dryrun_reply w0" "dryruns w' = dryruns w0 + k"
    "sleeps (trace w') = sleeps (trace w0) @ backoff 0 k"
    using dry_loop_retry[of k w0 0 retries opts None] by blast
  have "\<not> retryable (dryrun_reply w' (dryruns w'))"
    using assms(3) w' w0 by simp
  with assms(1) have "sendAosDryRun_loop opts retries (0 + k)
           (if k = 0 then None else Some (projl (dryrun_reply w0 (dryruns w0 + k - 1)))) w'
        = (dryrun_reply w' (dryruns w'), snd (aoDryRun opts w'))"
    by (simp add: dry_loop_stop)
  moreover have "sendAosDryRun opts retries w = sendAosDryRun_loop opts retries 0 None w0"
    by (simp add: sendAosDryRun_def w0_def)
  ultimately show ?thesis using w' w0
    by (simp add: aoDryRun_def emit_def)
qed

lemma dry_run_exhausts:
  assumes "\<forall>i < nat retries. retryable (dryrun_reply w (dryruns w + i))"
  shows "fst (sendAosDryRun opts retries w)
           = Inl (if 0 < retries then projl (dryrun_reply w (dryruns w + nat retries - 1))
                  else Error ''Unknown error occurred'')
       \<and> dryruns (snd (sendAosDryRun opts retries w)) = dryruns w + nat retries
       \<and> sleeps (trace (snd (sendAosDryRun opts retries w)))
           = sleeps (trace w) @ backoff 0 (nat retries)"
proof -
  define w0 where "w0 = emit (DryRunOp (processId opts) (tags opts)) w"
  define k where "k = nat retries"
  have w0: "dryrun_reply w0 = dryrun_reply w" "dryruns w0 = dryruns w"
    "sleeps (trace w0) = sleeps (trace w)"
    by (simp_all add: w0_def emit_def)
  from assms w0 have "\<forall>i<k. retryable (dryrun_reply w0 (dryruns w0 + i))" by (simp add: k_def)
  then obtain w' where w':
    "sendAosDryRun_loop opts (int k) 0 None w0
       = sendAosDryRun_loop opts (int k) (0 + k)
           (if k = 0 then None else Some (projl (dryrun_reply w0 (dryruns w0 + k - 1)))) w'"
    "dryrun_reply w' = dryrun_reply w0" "dryruns w' = dryruns w0 + k"
    "sleeps (trace w') = sleeps (trace w0) @ backoff 0 k"
    using dry_loop_retry[of k w0 0 "int k" opts None] by auto
  have run: "sendAosDryRun opts retries w = sendAosDryRun_loop opts retries 0 None w0"
    by (simp add: sendAosDryRun_def w0_def)
  show ?thesis
  proof (cases "0 < retries")
    case True
    then have r: "retries = int k" "k \<noteq> 0" by (simp_all add: k_def)
    show ?thesis using w' w0 True run
      by (simp add: r dry_loop_exhausted)
  next
    case False
    then show ?thesis
      by (simp add: sendAosDryRun_def dry_loop_exhausted emit_def)
  qed
qed

lemma send_settles:
  assumes "int k < retries" and "\<forall>i<k. retryable (send_outcome w (messages w + i))"
    and "\<not> retryable (send_outcome w (messages w + k))"
  shows "fst (sendAosMessage opts retries w) = send_outcome w (messages w + k)
       \<and> messages (snd (sendAosMessage opts retries w)) = messages w + k + 1
       \<and> sleeps (trace (snd (sendAosMessage opts retries w))) = sleeps (trace w) @ backoff 0 k"
proof -
  define w0 where "w0 = emit (SendOp (processId opts) (tags opts)) w"
  have w0: "message_reply w0 = message_reply w" "result_reply w0 = result_reply w"
    "messages w0 = messages w" "sleeps (trace w0) = sleeps (trace w)"
    by (simp_all add: w0_def emit_def)
  have out0: "send_outcome w0 = send_outcome w"
    unfolding fun_eq_iff send_outcome_def by (simp only: w0) simp
  from assms w0 out0 have "\<forall>i<k. retryable (send_outcome w0 (messages w0 + i))" by simp
  moreover have "int (0 + k) \<le> retries" using assms(1) by simp
  ultimately obtain w' where w':
    "sendAosMessage_loop opts retries 0 None w0
       = sendAosMessage_loop opts retries (0 + k)
           (if k = 0 then None else Some (projl (send_outcome w0 (messages w0 + k - 1)))) w'"
    "message_reply w' = message_reply w0" "result_reply w' = result_reply w0"
    "messages w' = messages w0 + k"
    "sleeps (trace w') = sleeps (trace w0) @ backoff 0 k"
    using send_loop_retry[of k w0 0 retries opts None] by blast
  have out': "send_outcome w' = send_outcome w"
    unfolding fun_eq_iff send_outcome_def by (simp only: w' w0) simp
  have "\<not> retryable (send_outcome w' (messages w'))"
    using assms(3) w' w0 out' by simp
  with assms(1) have "sendAosMessage_loop opts retries (0 + k)
           (if k = 0 then None else Some (projl (send_outcome w0 (messages w0 + k - 1)))) w'
        = (send_outcome w' (messages w'), snd (send_attempt opts w'))"
    by (simp add: send_loop_stop)
  moreover have "sendAosMessage opts retries w = sendAosMessage_loop opts retries 0 None w0"
    by (simp add: sendAosMessage_def w0_def)
  ultimately show ?thesis using w' w0 out'
    by (simp add: send_attempt_snd)
qed

lemma send_exhausts:
  assumes "\<forall>i < nat retries. retryable (send_outcome w (messages w + i))"
  shows "fst (sendAosMessage opts retries w)
           = Inl (if 0 < retries then projl (send_outcome w (messages w + nat retries - 1))
                  else Error ''Unknown error occurred'')
       \<and> messages (snd (sendAosMessage opts retries w)) = messages w + nat retries
       \<and> sleeps (trace (snd (sendAosMessage opts retries w)))
           = sleeps (trace w) @ backoff 0 (nat retries)"
proof -
  define w0 where "w0 = emit (SendOp (processId opts) (tags opts)) w"
  define k where "k = nat retries"
  have w0: "message_reply w0 = message_reply w" "result_reply w0 = result_reply w"
    "messages w0 = messages w" "sleeps (trace w0) = sleeps (trace w)"
    by (simp_all add: w0_def emit_def)
  have out0: "send_outcome w0 = send_outcome w"
    unfolding fun_eq_iff send_outcome_def by (simp only: w0) simp
  from assms w0 out0 have "\<forall>i<k. retryable (send_outcome w0 (messages w0 + i))"
    by (simp add: k_def)
  then obtain w' where w':
    "sendAosMessage_loop opts (int k) 0 None w0
       = sendAosMessage_loop opts (int k) (0 + k)
           (if k = 0 then None else Some (projl (send_outcome w0 (messages w0 + k - 1)))) w'"
    "messages w' = messages w0 + k"
    "sleeps (trace w') = sleeps (trace w0) @ backoff 0 k"
    using send_loop_retry[of k w0 0 "int k" opts None] by auto
  have run: "sendAosMessage opts retries w = sendAosMessage_loop opts retries 0 None w0"
    by (simp add: sendAosMessage_def w0_def)
  show ?thesis
  proof (cases "0 < retries")
    case True
    then have r: "retries = int k" "k \<noteq> 0" by (simp_all add: k_def)
    show ?thesis using w' w0 out0 True run
      by (simp add: r send_loop_exhausted)
  next
    case False
    then show ?thesis
      by (simp add: sendAosMessage_def send_loop_exhausted emit_def)
  qed
qed

lemma sendAosDryRun_frame:
  assumes "sendAosDryRun opts retries w = (res, w')"
  shows "dryrun_reply w' = dryrun_reply w \<and> message_reply w' = message_reply w
       \<and> result_reply w' = result_reply w \<and> messages w' = messages w
       \<and> queries (trace w') = queries (trace w) @ [DryRunOp (processId opts) (tags opts)]
       \<and> sends (trace w') = sends (trace w)
       \<and> dryruns w \<le> dryruns w' \<and> int (dryruns w') \<le> int (dryruns w) + max 0 retries"
  using dry_loop_frame[OF assms[unfolded sendAosDryRun_def]]
  by (simp add: emit_def)

lemma sendAosMessage_frame:
  assumes "sendAosMessage opts retries w = (res, w')"
  shows "dryrun_reply w' = dryrun_reply w \<and> message_reply w' = message_reply w
       \<and> result_reply w' = result_reply w \<and> dryruns w' = dryruns w
       \<and> queries (trace w') = queries (trace w)
       \<and> sends (trace w') = sends (trace w) @ [SendOp (processId opts) (tags opts)]
       \<and> messages w \<le> messages w' \<and> int (messages w') \<le> int (messages w) + max 0 retries"
  using send_loop_frame[OF assms[unfolded sendAosMessage_def]]
  by (simp add: emit_def)

lemma fetchProcessState_cases:
  assumes "fetchProcessState parse svc now w = (r, svc', w')"
  shows "queries (trace w') = queries (trace w)
           @ [DryRunOp (service_processId svc) [(''Action'', ''View-State'')]]
       \<and> sends (trace w') = sends (trace w) \<and> messages w' = messages w
       \<and> dryrun_reply w' = dryrun_reply w \<and> message_reply w' = message_reply w
       \<and> result_reply w' = result_reply w
       \<and> (case r of
             Inr st \<Rightarrow> svc' = svc\<lparr>stateCache := Some st, stateCacheTimestamp := now\<rparr>
           | Inl e \<Rightarrow> svc' = svc)"
proof -
  obtain x w1 where x: "sendAosDryRun (view_state svc) 3 w = (x, w1)"
    by (cases "sendAosDryRun (view_state svc) 3 w")
  have w1: "w' = w1"
    using assms x
    by (auto simp: fetchProcessState_def view_state_def split: sum.splits)
  have "(case r of
             Inr st \<Rightarrow> svc' = svc\<lparr>stateCache := Some st, stateCacheTimestamp := now\<rparr>
           | Inl e \<Rightarrow> svc' = svc)"
    using assms x
    by (auto simp: fetchProcessState_def view_state_def split: sum.splits)
  with sendAosDryRun_frame[OF x] w1 show ?thesis
    by (simp add: view_state_def)
qed

lemma getProcessState_hit:
  assumes "stateCache svc = Some st" and "now - stateCacheTimestamp svc < stateCacheTtlMs svc"
  shows "getProcessState parse svc False now w = (Inr st, svc, w)"
  using assms by (simp add: getProcessState_def)

lemma getProcessState_miss:
  assumes "force \<or> stateCache svc = None \<or> stateCacheTtlMs svc \<le> now - stateCacheTimestamp svc"
  shows "getProcessState parse svc force now w = fetchProcessState parse svc now w"
  using assms by (auto simp: getProcessState_def split: option.splits)

lemma getProcessState_cases:
  assumes "getProcessState parse svc force now w = (r, svc', w')"
  shows "(\<exists>st. \<not> force \<and> stateCache svc = Some st
              \<and> now - stateCacheTimestamp svc < stateCacheTtlMs svc
              \<and> r = Inr st \<and> svc' = svc \<and> w' = w)
       \<or> ((force \<or> stateCache svc = None \<or> stateCacheTtlMs svc \<le> now - stateCacheTimestamp svc)
          \<and> fetchProcessState parse svc now w = (r, svc', w'))"
  using assms by (auto simp: getProcessState_def Let_def split: option.splits if_splits)

lemma backoff_3: "backoff 0 3 = [2000, 4000, 8000]" "backoff 0 2 = [2000, 4000]"
  by (simp_all add: backoff_def numeral_3_eq_3 numeral_2_eq_2)

section \<open>Lemmas about the Achievement Ledger Service\<close>

lemma parseProcessInfo_unparsable:
  "unparsable parse result \<Longrightarrow>
     parseProcessInfo parse result = Inl (Error ''Invalid process info format'')"
  by (auto simp: unparsable_def parseProcessInfo_def split: messages_field.splits list.splits option.splits)


lemma dry_one_attempt:
  assumes "\<not> retryable (dryrun_reply w (dryruns w))"
  shows "sendAosDryRun opts 3 w
           = (dryrun_reply w (dryruns w),
              emit (AoDryRun (processId opts) (tags opts))
                (emit (DryRunOp (processId opts) (tags opts)) w\<lparr>dryruns := Suc (dryruns w)\<rparr>))"
  using assms
  by (simp add: sendAosDryRun_def dry_loop_stop aoDryRun_def emit_def)

lemma fresh_fetch:
  "getProcessState parse_example fresh_service False 1000 (replying (\<lambda>n. snapshot_reply ''before''))
     = (Inr ledger_before, cached_service, queried (replying (\<lambda>n. snapshot_reply ''before'')))"
  by (simp add: getProcessState_def fetchProcessState_def dry_one_attempt fresh_service_def
        new_AchievementsService_def replying_def snapshot_reply_def parseProcessInfo_def
        parse_example_def cached_service_def queried_def)

lemma verifyInitialization_checks:
  "verifyInitialization parse svc now w =
     (case getProcessState parse svc False now w of
        (Inl err, svc1, w1) \<Rightarrow> (Inl err, svc1, w1)
      | (Inr state, svc1, w1) \<Rightarrow>
          (fst (startup_checks svc1 state), snd (startup_checks svc1 state), w1))"
  by (simp add: verifyInitialization_def startup_checks_def split: prod.splits sum.splits)

lemma verifyInitialization_world:
  assumes "verifyInitialization parse svc now w = (r, svc', w')"
  shows "w' = snd (snd (getProcessState parse svc False now w))"
  using assms by (auto simp: verifyInitialization_checks split: prod.splits sum.splits)

lemma startup_checks_cached:
  "startup_checks cached_service ledger_before
     = (Inr (), cached_service\<lparr>achievementIdsByName := achievementIdsByName ready_service\<rparr>)"
  by (simp add: startup_checks_def verifyAclPermissions_def loadAchievementIds_def
        cached_service_def
        fresh_service_def ready_service_def new_AchievementsService_def ledger_before_def mint_def
        REQUIRED_ACHIEVEMENTS_def ACHIEVEMENT_WUZZY_SEARCHER_def
        ACHIEVEMENT_WUZZY_VIDEO_SEARCHER_def ACHIEVEMENT_WUZZY_IMAGE_SEARCHER_def
        ACHIEVEMENT_WUZZY_ARNS_SEARCHER_def ACHIEVEMENT_WUZZY_AUDIO_SEARCHER_def)

lemma map_of_Map_set: "map_of (Map_set k v m) n = (if n = k then Some v else map_of m n)"
  by (induction m) auto

lemma map_of_fold_Map_set:
  "map_of (fold (\<lambda>(i, mint) m. Map_set (mint_name mint) i m) ms m0) n = None
     \<longleftrightarrow> map_of m0 n = None \<and> n \<notin> set (map (\<lambda>(i, m). mint_name m) ms)"
  by (induction ms arbitrary: m0) (auto simp: map_of_Map_set split: if_splits)

lemma verifyAclPermissions_outcome:
  "snd (verifyAclPermissions svc info) =
     (if acl_enabled info (walletAddress svc) then Inr ()
      else Inl (Error
        (case acl info of
           None \<Rightarrow> ''No ACL found in process info''
         | Some a \<Rightarrow>
             (case roles a of
                None \<Rightarrow> ''No ACL found in process info''
              | Some rs \<Rightarrow>
                  (case map_of rs ''Award-Cheese-Mint'' of
                     None \<Rightarrow> ''Award-Cheese-Mint permission not configured in ACL''
                   | Some perms \<Rightarrow>
                       ''Wallet does not have Award-Cheese-Mint permission in AO process'')))))"
  by (simp add: verifyAclPermissions_def acl_enabled_def role_permissions_def Let_def
           split: option.splits)

lemma verifyAclPermissions_log:
  assumes "role_permissions info = Some perms" and "\<not> acl_enabled info (walletAddress svc)"
  shows "verifyAclPermissions svc info =
           ([''Wallet '' @ walletAddress svc @ '' is not in Award-Cheese-Mint ACL'',
             ''Allowed addresses: ''
               @ join (filter (\<lambda>a. map_of perms a = Some True) (map fst perms)) '', ''],
            Inl (Error ''Wallet does not have Award-Cheese-Mint permission in AO process''))"
  using assms
  by (auto simp: verifyAclPermissions_def acl_enabled_def role_permissions_def Let_def
           split: option.splits)

lemma loadAchievementIds_outcome:
  assumes "achievementIdsByName svc = []"
  shows "fst (snd (loadAchievementIds svc info)) =
     (case cheese_mints_by_id info of
        None \<Rightarrow> Inl (Error ''No cheese_mints_by_id found in process info'')
      | Some ms \<Rightarrow>
          if missing_achievements info = [] then Inr ()
          else Inl (Error (''Required achievements not found: ''
                           @ join (missing_achievements info) '', '')))"
proof (cases "cheese_mints_by_id info")
  case None
  then show ?thesis by (simp add: loadAchievementIds_def)
next
  case (Some ms)
  have "filter (\<lambda>name. map_of (fold (\<lambda>(i, mint) m. Map_set (mint_name mint) i m) ms []) name = None)
          REQUIRED_ACHIEVEMENTS = missing_achievements info"
    by (simp add: missing_achievements_def catalog_names_def Some map_of_fold_Map_set)
  then show ?thesis
    using Some assms by (simp add: loadAchievementIds_def Let_def)
qed

lemma getProcessState_keeps:
  assumes "getProcessState parse svc force now w = (r, svc', w')"
  shows "achievementIdsByName svc' = achievementIdsByName svc
       \<and> walletAddress svc' = walletAddress svc
       \<and> service_processId svc' = service_processId svc
       \<and> stateCacheTtlMs svc' = stateCacheTtlMs svc"
  using getProcessState_cases[OF assms] fetchProcessState_cases[of parse svc now w r svc' w']
  by (cases r) auto

lemma hasAchievement_cases:
  assumes "hasAchievement parse svc wal aid now w = (r, svc1, w1)"
  shows "\<exists>r0. getProcessState parse svc False now w = (r0, svc1, w1)
            \<and> (case r0 of Inl e \<Rightarrow> r = Inl e | Inr st \<Rightarrow> r = awarded st wal aid)"
  using assms
  by (cases "getProcessState parse svc False now w")
     (auto simp: hasAchievement_def split: sum.splits)

lemma awardAchievement_send:
  assumes "getAchievementId svc nm = Some aid"
    and "hasAchievement parse svc wal aid now w = (Inr False, svc1, w1)"
  shows "awardAchievement parse svc nm wal now w =
           (case sendAosMessage (award_message svc1 aid wal) 3 w1 of
              (Inr sent, w2) \<Rightarrow> (Inr (), invalidateStateCache svc1, w2)
            | (Inl err, w2) \<Rightarrow> (Inl err, svc1, w2))"
  using assms by (simp add: awardAchievement_def award_message_def)


lemma send_fst_one_attempt:
  assumes "\<not> retryable (send_outcome w (messages w))"
  shows "fst (sendAosMessage opts 3 w) = send_outcome w (messages w)"
  using send_settles[of 0 3 w opts] assms by simp

lemma ready_id: "getAchievementId ready_service ''Wuzzy Searcher'' = Some ''1''"
  "getAchievementId cached_ready_service ''Wuzzy Searcher'' = Some ''1''"
  by (simp_all add: getAchievementId_def ready_service_def cached_ready_service_def)



section \<open>Lemmas about the Reward Event Processor\<close>

lemma handleEvent_routed:
  assumes "event_achievement (job_name job) = Some specific"
  shows "handleEvent award now job n t (calls, s) =
     (case award ACHIEVEMENT_WUZZY_SEARCHER n s of
        (Inl err, s1) \<Rightarrow> (Inl err, calls @ [(ACHIEVEMENT_WUZZY_SEARCHER, n)], s1)
      | (Inr u, s1) \<Rightarrow>
          (case award specific n s1 of
             (Inl err, s2) \<Rightarrow>
               (Inl err, calls @ [(ACHIEVEMENT_WUZZY_SEARCHER, n), (specific, n)], s2)
           | (Inr u', s2) \<Rightarrow>
               (Inr \<lparr>success = True, eventType = job_name job, res_wallet = n,
                     walletType = t, processedAt = now,
                     metadata = data_metadata (job_data job)\<rparr>,
                calls @ [(ACHIEVEMENT_WUZZY_SEARCHER, n), (specific, n)], s2)))"
  using assms
  by (auto simp: event_achievement_def handleEvent_def handleArnsSearch_def
        handleImageSearch_def handleAudioSearch_def handleVideoSearch_def invoke_def
        split: if_splits prod.splits sum.splits)

section \<open>Claims about the Ledger Client\<close>

text \<open>
  C2. Both Ledger Client operations, with their default of 3 retries, make at most
  3 attempts (transport calls). When the first \<open>k < 3\<close> attempts fail with a server
  error and attempt \<open>k\<close> does not (it succeeds, or fails with another error), the
  operation ends with the outcome of attempt \<open>k\<close>, after \<open>k + 1\<close> attempts and \<open>k\<close>
  sleeps of \<open>2 ^ i * 2000\<close> ms, \<open>i = 0, ..., k - 1\<close>: an error that is not a server error
  is raised at once, with no sleep and no further attempt after it. Three server
  errors in a row give sleeps of 2 s, 4 s and 8 s. Two server errors and then a
  success give the success after sleeps of 2 s and 4 s.
\<close>

theorem retry_policy:
  "dryruns (snd (sendAosDryRun opts 3 w)) \<le> dryruns w + 3
   \<and> messages (snd (sendAosMessage opts 3 w)) \<le> messages w + 3
   \<and> (k < 3 \<and> (\<forall>i<k. retryable (dryrun_reply w (dryruns w + i)))
        \<and> \<not> retryable (dryrun_reply w (dryruns w + k))
      \<longrightarrow> fst (sendAosDryRun opts 3 w) = dryrun_reply w (dryruns w + k)
        \<and> dryruns (snd (sendAosDryRun opts 3 w)) = dryruns w + k + 1
        \<and> sleeps (trace (snd (sendAosDryRun opts 3 w)))
            = sleeps (trace w) @ map (\<lambda>i. 2 ^ i * 2000) [0..<k])
   \<and> (k < 3 \<and> (\<forall>i<k. retryable (send_outcome w (messages w + i)))
        \<and> \<not> retryable (send_outcome w (messages w + k))
      \<longrightarrow> fst (sendAosMessage opts 3 w) = send_outcome w (messages w + k)
        \<and> messages (snd (sendAosMessage opts 3 w)) = messages w + k + 1
        \<and> sleeps (trace (snd (sendAosMessage opts 3 w)))
            = sleeps (trace w) @ map (\<lambda>i. 2 ^ i * 2000) [0..<k])
   \<and> ((\<forall>i<3. retryable (dryrun_reply w (dryruns w + i)))
      \<longrightarrow> dryruns (snd (sendAosDryRun opts 3 w)) = dryruns w + 3
        \<and> sleeps (trace (snd (sendAosDryRun opts 3 w)))
            = sleeps (trace w) @ [2000, 4000, 8000])
   \<and> ((\<forall>i<3. retryable (send_outcome w (messages w + i)))
      \<longrightarrow> messages (snd (sendAosMessage opts 3 w)) = messages w + 3
        \<and> sleeps (trace (snd (sendAosMessage opts 3 w)))
            = sleeps (trace w) @ [2000, 4000, 8000])
   \<and> (retryable (dryrun_reply w (dryruns w)) \<and> retryable (dryrun_reply w (dryruns w + 1))
        \<and> dryrun_reply w (dryruns w + 2) = Inr r
      \<longrightarrow> fst (sendAosDryRun opts 3 w) = Inr r
        \<and> sleeps (trace (snd (sendAosDryRun opts 3 w))) = sleeps (trace w) @ [2000, 4000])
   \<and> (retryable (send_outcome w (messages w)) \<and> retryable (send_outcome w (messages w + 1))
        \<and> send_outcome w (messages w + 2) = Inr mr
      \<longrightarrow> fst (sendAosMessage opts 3 w) = Inr mr
        \<and> sleeps (trace (snd (sendAosMessage opts 3 w))) = sleeps (trace w) @ [2000, 4000])"
proof -
  have b1: "dryruns (snd (sendAosDryRun opts 3 w)) \<le> dryruns w + 3"
    using sendAosDryRun_frame[of opts 3 w "fst (sendAosDryRun opts 3 w)"
            "snd (sendAosDryRun opts 3 w)"] by simp
  have b2: "messages (snd (sendAosMessage opts 3 w)) \<le> messages w + 3"
    using sendAosMessage_frame[of opts 3 w "fst (sendAosMessage opts 3 w)"
            "snd (sendAosMessage opts 3 w)"] by simp
  have c1: "k < 3 \<and> (\<forall>i<k. retryable (dryrun_reply w (dryruns w + i)))
        \<and> \<not> retryable (dryrun_reply w (dryruns w + k))
      \<longrightarrow> fst (sendAosDryRun opts 3 w) = dryrun_reply w (dryruns w + k)
        \<and> dryruns (snd (sendAosDryRun opts 3 w)) = dryruns w + k + 1
        \<and> sleeps (trace (snd (sendAosDryRun opts 3 w)))
            = sleeps (trace w) @ map (\<lambda>i. 2 ^ i * 2000) [0..<k]"
    using dry_run_settles[of k 3 w opts] by (simp add: backoff_map)
  have c2: "k < 3 \<and> (\<forall>i<k. retryable (send_outcome w (messages w + i)))
        \<and> \<not> retryable (send_outcome w (messages w + k))
      \<longrightarrow> fst (sendAosMessage opts 3 w) = send_outcome w (messages w + k)
        \<and> messages (snd (sendAosMessage opts 3 w)) = messages w + k + 1
        \<and> sleeps (trace (snd (sendAosMessage opts 3 w)))
            = sleeps (trace w) @ map (\<lambda>i. 2 ^ i * 2000) [0..<k]"
    using send_settles[of k 3 w opts] by (simp add: backoff_map)
  have d1: "(\<forall>i<3. retryable (dryrun_reply w (dryruns w + i)))
      \<longrightarrow> dryruns (snd (sendAosDryRun opts 3 w)) = dryruns w + 3
        \<and> sleeps (trace (snd (sendAosDryRun opts 3 w)))
            = sleeps (trace w) @ [2000, 4000, 8000]"
    using dry_run_exhausts[of 3 w opts] by (simp add: backoff_3)
  have d2: "(\<forall>i<3. retryable (send_outcome w (messages w + i)))
      \<longrightarrow> messages (snd (sendAosMessage opts 3 w)) = messages w + 3
        \<and> sleeps (trace (snd (sendAosMessage opts 3 w)))
            = sleeps (trace w) @ [2000, 4000, 8000]"
    using send_exhausts[of 3 w opts] by (simp add: backoff_3)
  have e1: "retryable (dryrun_reply w (dryruns w)) \<and> retryable (dryrun_reply w (dryruns w + 1))
        \<and> dryrun_reply w (dryruns w + 2) = Inr r
      \<longrightarrow> fst (sendAosDryRun opts 3 w) = Inr r
        \<and> sleeps (trace (snd (sendAosDryRun opts 3 w))) = sleeps (trace w) @ [2000, 4000]"
  proof
    assume a: "retryable (dryrun_reply w (dryruns w)) \<and> retryable (dryrun_reply w (dryruns w + 1))
        \<and> dryrun_reply w (dryruns w + 2) = Inr r"
    then have "\<forall>i<2. retryable (dryrun_reply w (dryruns w + i))"
      by (auto simp: less_Suc_eq numeral_2_eq_2)
    moreover have "\<not> retryable (dryrun_reply w (dryruns w + 2))" using a by simp
    ultimately show "fst (sendAosDryRun opts 3 w) = Inr r
        \<and> sleeps (trace (snd (sendAosDryRun opts 3 w))) = sleeps (trace w) @ [2000, 4000]"
      using dry_run_settles[of 2 3 w opts] a by (simp add: backoff_3)
  qed
  have e2: "retryable (send_outcome w (messages w)) \<and> retryable (send_outcome w (messages w + 1))
        \<and> send_outcome w (messages w + 2) = Inr mr
      \<longrightarrow> fst (sendAosMessage opts 3 w) = Inr mr
        \<and> sleeps (trace (snd (sendAosMessage opts 3 w))) = sleeps (trace w) @ [2000, 4000]"
  proof
    assume a: "retryable (send_outcome w (messages w))
        \<and> retryable (send_outcome w (messages w + 1))
        \<and> send_outcome w (messages w + 2) = Inr mr"
    then have "\<forall>i<2. retryable (send_outcome w (messages w + i))"
      by (auto simp: less_Suc_eq numeral_2_eq_2)
    moreover have "\<not> retryable (send_outcome w (messages w + 2))" using a by simp
    ultimately show "fst (sendAosMessage opts 3 w) = Inr mr
        \<and> sleeps (trace (snd (sendAosMessage opts 3 w))) = sleeps (trace w) @ [2000, 4000]"
      using send_settles[of 2 3 w opts] a by (simp add: backoff_3)
  qed
  from b1 b2 c1 c2 d1 d2 e1 e2 show ?thesis by blast
qed

theorem retry_policy_witness:
  "fst (sendAosDryRun some_opts 3 flaky_world) = snapshot_reply ''s''
   \<and> dryruns (snd (sendAosDryRun some_opts 3 flaky_world)) = 3
   \<and> sleeps (trace (snd (sendAosDryRun some_opts 3 flaky_world))) = [2000, 4000]
   \<and> fst (sendAosMessage some_opts 3 flaky_world) = Inr (''m'', ''ok'')
   \<and> messages (snd (sendAosMessage some_opts 3 flaky_world)) = 3
   \<and> sleeps (trace (snd (sendAosMessage some_opts 3 flaky_world))) = [2000, 4000]
   \<and> dryruns (snd (sendAosDryRun some_opts 3 down_world)) = 3
   \<and> sleeps (trace (snd (sendAosDryRun some_opts 3 down_world))) = [2000, 4000, 8000]
   \<and> messages (snd (sendAosMessage some_opts 3 down_world)) = 3
   \<and> sleeps (trace (snd (sendAosMessage some_opts 3 down_world))) = [2000, 4000, 8000]"
proof -
  have two: "(\<forall>i<2. P i) \<longleftrightarrow> P 0 \<and> P (Suc 0)" for P :: "nat \<Rightarrow> bool"
    by (auto simp: less_Suc_eq numeral_2_eq_2)
  have up: "[0..<2] = [0, Suc 0]"
    by (simp add: numeral_2_eq_2)
  have f: "fst (sendAosDryRun some_opts 3 flaky_world) = snapshot_reply ''s''
   \<and> dryruns (snd (sendAosDryRun some_opts 3 flaky_world)) = 3
   \<and> sleeps (trace (snd (sendAosDryRun some_opts 3 flaky_world))) = [2000, 4000]
   \<and> fst (sendAosMessage some_opts 3 flaky_world) = Inr (''m'', ''ok'')
   \<and> messages (snd (sendAosMessage some_opts 3 flaky_world)) = 3
   \<and> sleeps (trace (snd (sendAosMessage some_opts 3 flaky_world))) = [2000, 4000]"
    using retry_policy[of some_opts flaky_world 2 "\<lparr>Messages = Array [\<lparr>Data = Some ''s''\<rparr>]\<rparr>"
            "(''m'', ''ok'')"]
    by (simp add: flaky_world_def snapshot_reply_def send_outcome_def two up)
  have d: "dryruns (snd (sendAosDryRun some_opts 3 down_world)) = 3
   \<and> sleeps (trace (snd (sendAosDryRun some_opts 3 down_world))) = [2000, 4000, 8000]
   \<and> messages (snd (sendAosMessage some_opts 3 down_world)) = 3
   \<and> sleeps (trace (snd (sendAosMessage some_opts 3 down_world))) = [2000, 4000, 8000]"
    using retry_policy[of some_opts down_world 0]
    by (simp add: down_world_def send_outcome_def)
  from f d show ?thesis by blast
qed

text \<open>
  C9. For both Ledger Client operations and every retry budget: when the budget is
  positive and every one of the \<open>retries\<close> attempts fails with a server error, the
  error of the last attempt is the one raised, after exactly \<open>retries\<close> attempts; when
  the budget is not positive, no attempt is made and the generic error
  \<^verbatim>\<open>Unknown error occurred\<close> is raised.
\<close>

theorem retries_exhausted:
  "(0 < retries \<and> (\<forall>i < nat retries. retryable (dryrun_reply w (dryruns w + i)))
      \<longrightarrow> (\<exists>e. dryrun_reply w (dryruns w + nat retries - 1) = Inl e
               \<and> fst (sendAosDryRun opts retries w) = Inl e)
        \<and> dryruns (snd (sendAosDryRun opts retries w)) = dryruns w + nat retries)
   \<and> (0 < retries \<and> (\<forall>i < nat retries. retryable (send_outcome w (messages w + i)))
      \<longrightarrow> (\<exists>e. send_outcome w (messages w + nat retries - 1) = Inl e
               \<and> fst (sendAosMessage opts retries w) = Inl e)
        \<and> messages (snd (sendAosMessage opts retries w)) = messages w + nat retries)
   \<and> (retries \<le> 0
      \<longrightarrow> fst (sendAosDryRun opts retries w) = Inl (Error ''Unknown error occurred'')
        \<and> dryruns (snd (sendAosDryRun opts retries w)) = dryruns w
        \<and> fst (sendAosMessage opts retries w) = Inl (Error ''Unknown error occurred'')
        \<and> messages (snd (sendAosMessage opts retries w)) = messages w)"
proof -
  have a: "(\<exists>e. dryrun_reply w (dryruns w + nat retries - 1) = Inl e
               \<and> fst (sendAosDryRun opts retries w) = Inl e)
        \<and> dryruns (snd (sendAosDryRun opts retries w)) = dryruns w + nat retries"
    if "0 < retries" and h: "\<forall>i < nat retries. retryable (dryrun_reply w (dryruns w + i))"
  proof -
    have "nat retries - 1 < nat retries" using that(1) by simp
    with h have "retryable (dryrun_reply w (dryruns w + (nat retries - 1)))" by blast
    then obtain e where "dryrun_reply w (dryruns w + (nat retries - 1)) = Inl e"
      using retryable_Inl by blast
    moreover have "dryruns w + (nat retries - 1) = dryruns w + nat retries - 1"
      using that(1) by simp
    ultimately show ?thesis using dry_run_exhausts[OF h, of opts] that(1) by simp
  qed
  have b: "(\<exists>e. send_outcome w (messages w + nat retries - 1) = Inl e
               \<and> fst (sendAosMessage opts retries w) = Inl e)
        \<and> messages (snd (sendAosMessage opts retries w)) = messages w + nat retries"
    if "0 < retries" and h: "\<forall>i < nat retries. retryable (send_outcome w (messages w + i))"
  proof -
    have "nat retries - 1 < nat retries" using that(1) by simp
    with h have "retryable (send_outcome w (messages w + (nat retries - 1)))" by blast
    then obtain e where "send_outcome w (messages w + (nat retries - 1)) = Inl e"
      using retryable_Inl by blast
    moreover have "messages w + (nat retries - 1) = messages w + nat retries - 1"
      using that(1) by simp
    ultimately show ?thesis using send_exhausts[OF h, of opts] that(1) by simp
  qed
  have c: "fst (sendAosDryRun opts retries w) = Inl (Error ''Unknown error occurred'')
        \<and> dryruns (snd (sendAosDryRun opts retries w)) = dryruns w
        \<and> fst (sendAosMessage opts retries w) = Inl (Error ''Unknown error occurred'')
        \<and> messages (snd (sendAosMessage opts retries w)) = messages w"
    if "retries \<le> 0"
    using that dry_run_exhausts[of retries w opts] send_exhausts[of retries w opts] by simp
  from a b c show ?thesis by blast
qed

theorem retries_exhausted_witness:
  "fst (sendAosDryRun some_opts 3 down_world) = Inl (Error ''500 third'')
   \<and> dryruns (snd (sendAosDryRun some_opts 3 down_world)) = 3
   \<and> fst (sendAosMessage some_opts 3 down_world) = Inl (Error ''500 third'')
   \<and> messages (snd (sendAosMessage some_opts 3 down_world)) = 3
   \<and> fst (sendAosDryRun some_opts 0 down_world) = Inl (Error ''Unknown error occurred'')
   \<and> dryruns (snd (sendAosDryRun some_opts 0 down_world)) = 0
   \<and> fst (sendAosMessage some_opts 0 down_world) = Inl (Error ''Unknown error occurred'')
   \<and> messages (snd (sendAosMessage some_opts 0 down_world)) = 0"
  using retries_exhausted[of 3 down_world some_opts] retries_exhausted[of 0 down_world some_opts]
  by (simp add: down_world_def send_outcome_def)

section \<open>Claims about the Achievement Ledger Service\<close>

text \<open>
  C4. When \<^verbatim>\<open>getProcessState\<close> queries the ledger (refresh forced, cache empty or
  expired) and the response cannot be parsed as a state snapshot, it raises
  \<^verbatim>\<open>Invalid process info format\<close> and the service is returned as it was: the cached
  state and the cache timestamp are unchanged.
\<close>

theorem parse_failure_keeps_cache:
  assumes "sendAosDryRun (view_state svc) 3 w = (Inr result, w1)"
    and "unparsable parse result"
    and "force \<or> stateCache svc = None \<or> stateCacheTtlMs svc \<le> now - stateCacheTimestamp svc"
  shows "getProcessState parse svc force now w
           = (Inl (Error ''Invalid process info format''), svc, w1)"
  using assms
  by (simp add: getProcessState_miss fetchProcessState_def view_state_def
        parseProcessInfo_unparsable)

theorem parse_failure_keeps_cache_witness:
  "getProcessState parse_example fresh_service False 1000 (replying (\<lambda>n. snapshot_reply ''{''))
     = (Inl (Error ''Invalid process info format''), fresh_service,
        snd (sendAosDryRun (view_state fresh_service) 3 (replying (\<lambda>n. snapshot_reply ''{''))))
   \<and> stateCache fresh_service = None"
proof -
  let ?w = "replying (\<lambda>n. snapshot_reply ''{'')"
  have "fst (sendAosDryRun (view_state fresh_service) 3 ?w)
          = Inr \<lparr>Messages = Array [\<lparr>Data = Some ''{''\<rparr>]\<rparr>"
    by (simp add: dry_one_attempt replying_def snapshot_reply_def)
  then have 1: "sendAosDryRun (view_state fresh_service) 3 ?w
          = (Inr \<lparr>Messages = Array [\<lparr>Data = Some ''{''\<rparr>]\<rparr>,
             snd (sendAosDryRun (view_state fresh_service) 3 ?w))"
    by (simp add: prod_eq_iff)
  have 2: "unparsable parse_example \<lparr>Messages = Array [\<lparr>Data = Some ''{''\<rparr>]\<rparr>"
    by (simp add: unparsable_def parse_example_def)
  have 3: "stateCache fresh_service = None"
    by (simp add: fresh_service_def new_AchievementsService_def)
  from parse_failure_keeps_cache[OF 1 2, of False 1000] 3 show ?thesis by simp
qed




text \<open>
  C8. At startup \<^verbatim>\<open>verifyInitialization\<close> runs on the service as the constructor and
  \<^verbatim>\<open>onModuleInit\<close> leave it, and that service has an empty cache. Whatever the
  process id, the wallet address, the configured TTL, the decoder, the time and the
  remote side are, the verification issues exactly one remote dry-run query, the
  \<^verbatim>\<open>View-State\<close> query to the process. When that query or the parsing of its result
  fails, the verification fails with the same error; otherwise the ACL check and the
  loading of the ids run on the state parsed from the result of that query, in the
  service that has just cached it. No cached snapshot is ever served.
\<close>

theorem startup_fetch:
  "queries (trace (snd (snd (verifyInitialization parse
                               (new_AchievementsService pid wal ttl) now w))))
     = queries (trace w) @ [DryRunOp pid [(''Action'', ''View-State'')]]
   \<and> verifyInitialization parse (new_AchievementsService pid wal ttl) now w
     = (case sendAosDryRun (view_state (new_AchievementsService pid wal ttl)) 3 w of
          (Inl err, w1) \<Rightarrow> (Inl err, new_AchievementsService pid wal ttl, w1)
        | (Inr result, w1) \<Rightarrow>
            (case parseProcessInfo parse result of
               Inl err \<Rightarrow> (Inl err, new_AchievementsService pid wal ttl, w1)
             | Inr state \<Rightarrow>
                 (fst (startup_checks
                         ((new_AchievementsService pid wal ttl)
                            \<lparr>stateCache := Some state, stateCacheTimestamp := now\<rparr>) state),
                  snd (startup_checks
                         ((new_AchievementsService pid wal ttl)
                            \<lparr>stateCache := Some state, stateCacheTimestamp := now\<rparr>) state),
                  w1)))
   \<and> stateCache (new_AchievementsService pid wal ttl) = None"
proof -
  let ?S = "new_AchievementsService pid wal ttl"
  have n: "stateCache ?S = None" "service_processId ?S = pid"
    by (simp_all add: new_AchievementsService_def)
  then have g: "getProcessState parse ?S False now w = fetchProcessState parse ?S now w"
    by (simp add: getProcessState_miss)
  obtain r svc' w' where v: "verifyInitialization parse ?S now w = (r, svc', w')"
    by (cases "verifyInitialization parse ?S now w")
  obtain r0 svc0 w0 where f: "fetchProcessState parse ?S now w = (r0, svc0, w0)"
    by (cases "fetchProcessState parse ?S now w")
  from verifyInitialization_world[OF v] g f have "w' = w0" by simp
  with fetchProcessState_cases[OF f] n v
  have q: "queries (trace (snd (snd (verifyInitialization parse ?S now w))))
             = queries (trace w) @ [DryRunOp pid [(''Action'', ''View-State'')]]"
    by simp
  have e: "verifyInitialization parse ?S now w
     = (case sendAosDryRun (view_state ?S) 3 w of
          (Inl err, w1) \<Rightarrow> (Inl err, ?S, w1)
        | (Inr result, w1) \<Rightarrow>
            (case parseProcessInfo parse result of
               Inl err \<Rightarrow> (Inl err, ?S, w1)
             | Inr state \<Rightarrow>
                 (fst (startup_checks
                         (?S\<lparr>stateCache := Some state, stateCacheTimestamp := now\<rparr>) state),
                  snd (startup_checks
                         (?S\<lparr>stateCache := Some state, stateCacheTimestamp := now\<rparr>) state),
                  w1)))"
    by (simp add: verifyInitialization_checks g fetchProcessState_def view_state_def
             split: prod.splits sum.splits)
  from q e n(1) show ?thesis by blast
qed

theorem startup_fetch_witness:
  "verifyInitialization parse_example fresh_service 1000 (replying (\<lambda>n. snapshot_reply ''before''))
     = (Inr (), cached_service\<lparr>achievementIdsByName := achievementIdsByName ready_service\<rparr>,
        queried (replying (\<lambda>n. snapshot_reply ''before'')))
   \<and> queries (trace (queried (replying (\<lambda>n. snapshot_reply ''before''))))
       = [DryRunOp ''ledger'' [(''Action'', ''View-State'')]]
   \<and> stateCache fresh_service = None"
proof -
  let ?w = "replying (\<lambda>n. snapshot_reply ''before'')"
  note t = startup_fetch[of parse_example "''ledger''" "''service-wallet''" None 1000 ?w,
             folded fresh_service_def]
  have d: "sendAosDryRun (view_state fresh_service) 3 ?w
             = (Inr \<lparr>Messages = Array [\<lparr>Data = Some ''before''\<rparr>]\<rparr>, queried ?w)"
    by (simp add: dry_one_attempt view_state_def fresh_service_def new_AchievementsService_def
          replying_def snapshot_reply_def queried_def)
  have p: "parseProcessInfo parse_example \<lparr>Messages = Array [\<lparr>Data = Some ''before''\<rparr>]\<rparr>
             = Inr ledger_before"
    by (simp add: parseProcessInfo_def parse_example_def)
  have c: "fresh_service\<lparr>stateCache := Some ledger_before, stateCacheTimestamp := 1000\<rparr>
             = cached_service"
    by (simp add: cached_service_def)
  have 1: "verifyInitialization parse_example fresh_service 1000 ?w
     = (Inr (), cached_service\<lparr>achievementIdsByName := achievementIdsByName ready_service\<rparr>,
        queried ?w)"
    using t by (simp add: d p c startup_checks_cached)
  have e0: "queries (trace ?w) = []"
    by (simp add: replying_def)
  from t have "queries (trace (snd (snd (verifyInitialization parse_example fresh_service 1000
                 ?w)))) = queries (trace ?w) @ [DryRunOp ''ledger'' [(''Action'', ''View-State'')]]"
    by blast
  then have 2: "queries (trace (queried ?w))
                  = [DryRunOp ''ledger'' [(''Action'', ''View-State'')]]"
    unfolding 1 e0 by simp
  from 1 2 t show ?thesis by blast
qed

text \<open>
  C7, as amended. Once the ledger state has been fetched, startup verification of a
  service whose name-to-id map is still empty fails exactly when the wallet address is
  not enabled under the \<^verbatim>\<open>Award-Cheese-Mint\<close> role of that state, or at least one of
  the five required names is missing from its catalog. A wallet that is not enabled
  fails with a fixed message that depends on the state only: \<^verbatim>\<open>No ACL found in
  process info\<close> when the state has no ACL section or the section has no roles,
  \<^verbatim>\<open>Award-Cheese-Mint permission not configured in ACL\<close> when the roles lack the
  role, and \<^verbatim>\<open>Wallet does not have Award-Cheese-Mint permission in AO process\<close> when
  the role is configured; in the last case the allowed addresses are written to the
  error log, and the error does not carry them. With the wallet enabled, missing
  names fail with an error that names them, in the order of the required list (a
  state without a catalog section fails with the fixed message \<^verbatim>\<open>No
  cheese_mints_by_id found in process info\<close>). With the wallet enabled and no name
  missing, verification passes.
\<close>

theorem startup_checks_outcome:
  assumes "getProcessState parse svc False now w = (Inr info, svc1, w1)"
    and "achievementIdsByName svc = []"
  shows "((\<exists>e. fst (verifyInitialization parse svc now w) = Inl e)
            \<longleftrightarrow> \<not> acl_enabled info (walletAddress svc) \<or> missing_achievements info \<noteq> [])
       \<and> (\<not> acl_enabled info (walletAddress svc)
          \<longrightarrow> fst (verifyInitialization parse svc now w)
                = Inl (Error ''No ACL found in process info'')
            \<or> fst (verifyInitialization parse svc now w)
                = Inl (Error ''Award-Cheese-Mint permission not configured in ACL'')
            \<or> fst (verifyInitialization parse svc now w)
                = Inl (Error ''Wallet does not have Award-Cheese-Mint permission in AO process''))
       \<and> (acl_roles info = None
          \<longrightarrow> fst (verifyInitialization parse svc now w)
                = Inl (Error ''No ACL found in process info'')
            \<and> fst (verifyAclPermissions svc1 info) = [])
       \<and> (acl_roles info = Some rs \<and> map_of rs ''Award-Cheese-Mint'' = None
          \<longrightarrow> fst (verifyInitialization parse svc now w)
                = Inl (Error ''Award-Cheese-Mint permission not configured in ACL'')
            \<and> fst (verifyAclPermissions svc1 info) = [])
       \<and> (role_permissions info = Some perms \<and> \<not> acl_enabled info (walletAddress svc)
          \<longrightarrow> fst (verifyInitialization parse svc now w)
                = Inl (Error ''Wallet does not have Award-Cheese-Mint permission in AO process'')
            \<and> fst (verifyAclPermissions svc1 info)
                = [''Wallet '' @ walletAddress svc @ '' is not in Award-Cheese-Mint ACL'',
                   ''Allowed addresses: ''
                     @ join (filter (\<lambda>a. map_of perms a = Some True) (map fst perms)) '', ''])
       \<and> (acl_enabled info (walletAddress svc) \<and> missing_achievements info \<noteq> []
          \<longrightarrow> fst (verifyInitialization parse svc now w)
                = Inl (Error (case cheese_mints_by_id info of
                                None \<Rightarrow> ''No cheese_mints_by_id found in process info''
                              | Some ms \<Rightarrow> ''Required achievements not found: ''
                                            @ join (missing_achievements info) '', '')))
       \<and> (acl_enabled info (walletAddress svc) \<and> missing_achievements info = []
          \<longrightarrow> fst (verifyInitialization parse svc now w) = Inr ())"
proof -
  from getProcessState_keeps[OF assms(1)] assms(2)
  have k: "achievementIdsByName svc1 = []" "walletAddress svc1 = walletAddress svc" by simp_all
  have m: "missing_achievements info \<noteq> []" if "cheese_mints_by_id info = None"
    using that
    by (simp add: missing_achievements_def catalog_names_def REQUIRED_ACHIEVEMENTS_def)
  have v: "fst (verifyInitialization parse svc now w) =
     (case snd (verifyAclPermissions svc1 info) of
        Inl err \<Rightarrow> Inl err
      | Inr u \<Rightarrow> (case fst (snd (loadAchievementIds svc1 info)) of
                   Inl err \<Rightarrow> Inl err | Inr u' \<Rightarrow> Inr ()))"
    using assms(1) by (simp add: verifyInitialization_def split: sum.splits prod.splits)
  have noacl: "fst (verifyInitialization parse svc now w)
                = Inl (Error ''No ACL found in process info'')
            \<and> fst (verifyAclPermissions svc1 info) = []"
    if "acl_roles info = None"
    using that
    by (auto simp: v verifyAclPermissions_def acl_roles_def split: option.splits)
  have norole: "fst (verifyInitialization parse svc now w)
                = Inl (Error ''Award-Cheese-Mint permission not configured in ACL'')
            \<and> fst (verifyAclPermissions svc1 info) = []"
    if "acl_roles info = Some rs" "map_of rs ''Award-Cheese-Mint'' = None"
    using that
    by (auto simp: v verifyAclPermissions_def acl_roles_def split: option.splits)
  have wallet: "fst (verifyInitialization parse svc now w)
                = Inl (Error ''Wallet does not have Award-Cheese-Mint permission in AO process'')
            \<and> fst (verifyAclPermissions svc1 info)
                = [''Wallet '' @ walletAddress svc @ '' is not in Award-Cheese-Mint ACL'',
                   ''Allowed addresses: ''
                     @ join (filter (\<lambda>a. map_of perms a = Some True) (map fst perms)) '', '']"
    if p: "role_permissions info = Some perms" and n: "\<not> acl_enabled info (walletAddress svc)"
  proof -
    from p obtain a rs' where "acl info = Some a" "roles a = Some rs'"
      "map_of rs' ''Award-Cheese-Mint'' = Some perms"
      by (auto simp: role_permissions_def split: option.splits)
    with n k have "fst (verifyInitialization parse svc now w)
          = Inl (Error ''Wallet does not have Award-Cheese-Mint permission in AO process'')"
      by (simp add: v verifyAclPermissions_outcome)
    moreover have "fst (verifyAclPermissions svc1 info)
                = [''Wallet '' @ walletAddress svc @ '' is not in Award-Cheese-Mint ACL'',
                   ''Allowed addresses: ''
                     @ join (filter (\<lambda>a. map_of perms a = Some True) (map fst perms)) '', '']"
      using verifyAclPermissions_log[of info perms svc1] p n k by simp
    ultimately show ?thesis by blast
  qed
  have main: "((\<exists>e. fst (verifyInitialization parse svc now w) = Inl e)
            \<longleftrightarrow> \<not> acl_enabled info (walletAddress svc) \<or> missing_achievements info \<noteq> [])
       \<and> (\<not> acl_enabled info (walletAddress svc)
          \<longrightarrow> fst (verifyInitialization parse svc now w)
                = Inl (Error ''No ACL found in process info'')
            \<or> fst (verifyInitialization parse svc now w)
                = Inl (Error ''Award-Cheese-Mint permission not configured in ACL'')
            \<or> fst (verifyInitialization parse svc now w)
                = Inl (Error ''Wallet does not have Award-Cheese-Mint permission in AO process''))
       \<and> (acl_enabled info (walletAddress svc) \<and> missing_achievements info \<noteq> []
          \<longrightarrow> fst (verifyInitialization parse svc now w)
                = Inl (Error (case cheese_mints_by_id info of
                                None \<Rightarrow> ''No cheese_mints_by_id found in process info''
                              | Some ms \<Rightarrow> ''Required achievements not found: ''
                                            @ join (missing_achievements info) '', '')))
       \<and> (acl_enabled info (walletAddress svc) \<and> missing_achievements info = []
          \<longrightarrow> fst (verifyInitialization parse svc now w) = Inr ())"
  proof (cases "acl_enabled info (walletAddress svc)")
    case False
    then show ?thesis using k
      by (auto simp: v verifyAclPermissions_outcome split: option.splits)
  next
    case True
    then show ?thesis using k m
      by (auto simp: v verifyAclPermissions_outcome loadAchievementIds_outcome
               split: option.splits)
  qed
  from main noacl norole wallet show ?thesis by blast
qed


theorem startup_checks_outcome_witness:
  "fst (verifyInitialization parse_example fresh_service 1000
          (replying (\<lambda>n. snapshot_reply ''before''))) = Inr ()
   \<and> acl_enabled ledger_before (walletAddress fresh_service)
   \<and> missing_achievements ledger_before = []
   \<and> achievementIdsByName fresh_service = []
   \<and> fst (verifyInitialization parse_example fresh_service 1000
            (replying (\<lambda>n. snapshot_reply ''incomplete'')))
       = Inl (Error ''Required achievements not found: Wuzzy Video Searcher, Wuzzy Image Searcher, Wuzzy ArNS Searcher, Wuzzy Audio Searcher'')
   \<and> fst (verifyInitialization parse_example stranger_service 1000
            (replying (\<lambda>n. snapshot_reply ''before'')))
       = Inl (Error ''Wallet does not have Award-Cheese-Mint permission in AO process'')
   \<and> fst (verifyInitialization parse_example fresh_service 1000
            (replying (\<lambda>n. snapshot_reply ''no-acl'')))
       = Inl (Error ''No ACL found in process info'')
   \<and> fst (verifyInitialization parse_example fresh_service 1000
            (replying (\<lambda>n. snapshot_reply ''no-role'')))
       = Inl (Error ''Award-Cheese-Mint permission not configured in ACL'')"
proof -
  have e: "acl_enabled ledger_before (walletAddress fresh_service)"
    "acl_enabled ledger_incomplete (walletAddress fresh_service)"
    "\<not> acl_enabled ledger_before (walletAddress stranger_service)"
    "role_permissions ledger_before
       = Some [(''service-wallet'', True), (''retired-wallet'', False), (''other-wallet'', True)]"
    by (simp_all add: acl_enabled_def role_permissions_def ledger_before_def
          ledger_incomplete_def fresh_service_def stranger_service_def
          new_AchievementsService_def)
  have a: "acl_roles ledger_no_acl = None"
    "acl_roles ledger_no_role = Some [(''Admin'', [(''service-wallet'', True)])]"
    "map_of [(''Admin'', [(''service-wallet'', True)])] ''Award-Cheese-Mint'' = None"
    by (simp_all add: acl_roles_def ledger_no_acl_def ledger_no_role_def)
  have m: "missing_achievements ledger_before = []"
    "missing_achievements ledger_incomplete
       = [''Wuzzy Video Searcher'', ''Wuzzy Image Searcher'', ''Wuzzy ArNS Searcher'',
          ''Wuzzy Audio Searcher'']"
    "cheese_mints_by_id ledger_incomplete
       = Some [mint ''1'' ''Wuzzy Searcher'', mint ''7'' ''Wuzzy Poet'']"
    by (simp_all add: missing_achievements_def catalog_names_def ledger_before_def
          ledger_incomplete_def mint_def
          REQUIRED_ACHIEVEMENTS_def ACHIEVEMENT_WUZZY_SEARCHER_def
          ACHIEVEMENT_WUZZY_VIDEO_SEARCHER_def ACHIEVEMENT_WUZZY_IMAGE_SEARCHER_def
          ACHIEVEMENT_WUZZY_ARNS_SEARCHER_def ACHIEVEMENT_WUZZY_AUDIO_SEARCHER_def)
  have i: "achievementIdsByName fresh_service = []" "achievementIdsByName stranger_service = []"
    by (simp_all add: fresh_service_def stranger_service_def new_AchievementsService_def)
  have g: "getProcessState parse_example fresh_service False 1000
              (replying (\<lambda>n. snapshot_reply payload))
            = (Inr st,
               fresh_service\<lparr>stateCache := Some st, stateCacheTimestamp := 1000\<rparr>,
               queried (replying (\<lambda>n. snapshot_reply payload)))"
    if "payload \<noteq> []" "parse_example payload = Some st" for payload st
    using that
    by (simp add: getProcessState_def fetchProcessState_def dry_one_attempt fresh_service_def
          new_AchievementsService_def replying_def snapshot_reply_def parseProcessInfo_def
          queried_def)
  have g2: "getProcessState parse_example fresh_service False 1000
              (replying (\<lambda>n. snapshot_reply ''incomplete''))
            = (Inr ledger_incomplete,
               fresh_service\<lparr>stateCache := Some ledger_incomplete, stateCacheTimestamp := 1000\<rparr>,
               queried (replying (\<lambda>n. snapshot_reply ''incomplete'')))"
    by (rule g) (simp_all add: parse_example_def)
  have g4: "getProcessState parse_example fresh_service False 1000
              (replying (\<lambda>n. snapshot_reply ''no-acl''))
            = (Inr ledger_no_acl,
               fresh_service\<lparr>stateCache := Some ledger_no_acl, stateCacheTimestamp := 1000\<rparr>,
               queried (replying (\<lambda>n. snapshot_reply ''no-acl'')))"
    by (rule g) (simp_all add: parse_example_def)
  have g5: "getProcessState parse_example fresh_service False 1000
              (replying (\<lambda>n. snapshot_reply ''no-role''))
            = (Inr ledger_no_role,
               fresh_service\<lparr>stateCache := Some ledger_no_role, stateCacheTimestamp := 1000\<rparr>,
               queried (replying (\<lambda>n. snapshot_reply ''no-role'')))"
    by (rule g) (simp_all add: parse_example_def)
  have g3: "getProcessState parse_example stranger_service False 1000
              (replying (\<lambda>n. snapshot_reply ''before''))
            = (Inr ledger_before,
               stranger_service\<lparr>stateCache := Some ledger_before, stateCacheTimestamp := 1000\<rparr>,
               queried (replying (\<lambda>n. snapshot_reply ''before'')))"
    by (simp add: getProcessState_def fetchProcessState_def dry_one_attempt stranger_service_def
          new_AchievementsService_def replying_def snapshot_reply_def parseProcessInfo_def
          parse_example_def queried_def)
  from startup_checks_outcome[OF fresh_fetch i(1)] e m i
  have 1: "fst (verifyInitialization parse_example fresh_service 1000
          (replying (\<lambda>n. snapshot_reply ''before''))) = Inr ()" by blast
  from startup_checks_outcome[OF g2 i(1)] e(2) m(2,3)
  have 2: "fst (verifyInitialization parse_example fresh_service 1000
            (replying (\<lambda>n. snapshot_reply ''incomplete'')))
       = Inl (Error ''Required achievements not found: Wuzzy Video Searcher, Wuzzy Image Searcher, Wuzzy ArNS Searcher, Wuzzy Audio Searcher'')"
    by simp
  from startup_checks_outcome[OF g3 i(2), where perms = "[(''service-wallet'', True),
         (''retired-wallet'', False), (''other-wallet'', True)]"] e(3,4)
  have 3: "fst (verifyInitialization parse_example stranger_service 1000
            (replying (\<lambda>n. snapshot_reply ''before'')))
       = Inl (Error ''Wallet does not have Award-Cheese-Mint permission in AO process'')"
    by blast
  from startup_checks_outcome[OF g4 i(1)] a(1)
  have 4: "fst (verifyInitialization parse_example fresh_service 1000
            (replying (\<lambda>n. snapshot_reply ''no-acl'')))
       = Inl (Error ''No ACL found in process info'')"
    by blast
  from startup_checks_outcome[OF g5 i(1), where rs = "[(''Admin'', [(''service-wallet'', True)])]"]
    a(2,3)
  have 5: "fst (verifyInitialization parse_example fresh_service 1000
            (replying (\<lambda>n. snapshot_reply ''no-role'')))
       = Inl (Error ''Award-Cheese-Mint permission not configured in ACL'')"
    by blast
  from 1 2 3 4 5 e(1) m(1) i(1) show ?thesis by blast
qed

text \<open>
  C7 as stated fails for a wallet that the role does not list: the error
  that is raised carries a fixed message with neither of the two allowed addresses in
  it; the addresses go to the error log.
\<close>

theorem startup_checks_outcome_counterexample:
  "verifyAclPermissions stranger_service ledger_before
     = ([''Wallet stranger-wallet is not in Award-Cheese-Mint ACL'',
         ''Allowed addresses: service-wallet, other-wallet''],
        Inl (Error ''Wallet does not have Award-Cheese-Mint permission in AO process''))
   \<and> fst (verifyInitialization parse_example stranger_service 1000
            (replying (\<lambda>n. snapshot_reply ''before'')))
       = Inl (Error ''Wallet does not have Award-Cheese-Mint permission in AO process'')
   \<and> \<not> str_includes ''Wallet does not have Award-Cheese-Mint permission in AO process''
          ''service-wallet''
   \<and> \<not> str_includes ''Wallet does not have Award-Cheese-Mint permission in AO process''
          ''other-wallet''"
proof -
  have a: "verifyAclPermissions stranger_service ledger_before
     = ([''Wallet stranger-wallet is not in Award-Cheese-Mint ACL'',
         ''Allowed addresses: service-wallet, other-wallet''],
        Inl (Error ''Wallet does not have Award-Cheese-Mint permission in AO process''))"
    by (simp add: verifyAclPermissions_def stranger_service_def new_AchievementsService_def
          ledger_before_def)
  have b: "fst (verifyInitialization parse_example stranger_service 1000
            (replying (\<lambda>n. snapshot_reply ''before'')))
       = Inl (Error ''Wallet does not have Award-Cheese-Mint permission in AO process'')"
    by (simp add: verifyInitialization_def getProcessState_def fetchProcessState_def
          dry_one_attempt parseProcessInfo_def parse_example_def replying_def snapshot_reply_def
          stranger_service_def new_AchievementsService_def verifyAclPermissions_def
          ledger_before_def)
  have c: "\<not> str_includes ''Wallet does not have Award-Cheese-Mint permission in AO process''
          ''service-wallet''"
    by simp
  have d: "\<not> str_includes ''Wallet does not have Award-Cheese-Mint permission in AO process''
          ''other-wallet''"
    by simp
  from a b c d show ?thesis by blast
qed

text \<open>
  C10. Let the achievement name resolve to an id and let the idempotency check of
  \<^verbatim>\<open>awardAchievement\<close> find no award, so that the signed send is called. When the
  send fails with any error, \<^verbatim>\<open>awardAchievement\<close> returns that very error and the
  service exactly as it was when the send was called: the cached state and the cache
  timestamp are untouched, and the cache is not invalidated. When the send
  succeeds, the cache is invalidated. The service that the send is called with is
  the one from before \<^verbatim>\<open>awardAchievement\<close> when the check was served from the cache,
  and otherwise that service with the state that the check has read cached at the
  time of the call.
\<close>

theorem failed_send_keeps_cache:
  assumes "getAchievementId svc nm = Some aid"
    and "hasAchievement parse svc wal aid now w = (Inr False, svc1, w1)"
  shows "(sendAosMessage (award_message svc1 aid wal) 3 w1 = (Inl err, w2)
            \<longrightarrow> awardAchievement parse svc nm wal now w = (Inl err, svc1, w2))
       \<and> (sendAosMessage (award_message svc1 aid wal) 3 w1 = (Inr sent, w2)
            \<longrightarrow> awardAchievement parse svc nm wal now w = (Inr (), invalidateStateCache svc1, w2))
       \<and> (stateCache svc = Some st \<and> now - stateCacheTimestamp svc < stateCacheTtlMs svc
            \<longrightarrow> svc1 = svc)
       \<and> ((stateCache svc = None \<or> stateCacheTtlMs svc \<le> now - stateCacheTimestamp svc)
            \<and> fst (getProcessState parse svc False now w) = Inr read
            \<longrightarrow> svc1 = svc\<lparr>stateCache := Some read, stateCacheTimestamp := now\<rparr>
              \<and> awarded read wal aid = Inr False)"
proof -
  from hasAchievement_cases[OF assms(2)] obtain r0 where
    g: "getProcessState parse svc False now w = (r0, svc1, w1)"
    and r0: "case r0 of Inl e \<Rightarrow> Inr False = Inl e | Inr st \<Rightarrow> Inr False = awarded st wal aid"
    by blast
  from r0 obtain st0 where st0: "r0 = Inr st0" "awarded st0 wal aid = Inr False"
    by (cases r0) auto
  have c: "svc1 = svc"
    if "stateCache svc = Some st" "now - stateCacheTimestamp svc < stateCacheTtlMs svc"
    using getProcessState_hit[OF that, of parse w] g by simp
  have d: "svc1 = svc\<lparr>stateCache := Some read, stateCacheTimestamp := now\<rparr>
           \<and> awarded read wal aid = Inr False"
    if m: "stateCache svc = None \<or> stateCacheTtlMs svc \<le> now - stateCacheTimestamp svc"
      and rd: "fst (getProcessState parse svc False now w) = Inr read"
  proof -
    from rd g st0 have e: "read = st0" by simp
    from m g have "fetchProcessState parse svc now w = (Inr st0, svc1, w1)"
      by (simp add: getProcessState_miss st0)
    from fetchProcessState_cases[OF this] e st0 show ?thesis by simp
  qed
  from c d show ?thesis
    by (auto simp: awardAchievement_send[OF assms])
qed

theorem failed_send_keeps_cache_witness:
  "awardAchievement parse_example cached_ready_service ''Wuzzy Searcher'' ''user-wallet'' 2000
       rejecting_world
     = (Inl (Error ''invalid signature''), cached_ready_service,
        snd (sendAosMessage (award_message cached_ready_service ''1'' ''user-wallet'') 3
               rejecting_world))
   \<and> stateCache cached_ready_service = Some ledger_before
   \<and> stateCacheTimestamp cached_ready_service = 1000
   \<and> awardAchievement parse_example ready_service ''Wuzzy Searcher'' ''user-wallet'' 1000
        rejecting_world
     = (Inl (Error ''invalid signature''), cached_ready_service,
        snd (sendAosMessage (award_message cached_ready_service ''1'' ''user-wallet'') 3
               (queried rejecting_world)))
   \<and> cached_ready_service
       = ready_service\<lparr>stateCache := Some ledger_before, stateCacheTimestamp := 1000\<rparr>"
proof -
  let ?opts = "award_message cached_ready_service ''1'' ''user-wallet''"
  have c: "stateCache cached_ready_service = Some ledger_before"
    "stateCacheTimestamp cached_ready_service = 1000"
    "2000 - stateCacheTimestamp cached_ready_service < stateCacheTtlMs cached_ready_service"
    by (simp_all add: cached_ready_service_def ready_service_def fresh_service_def
          new_AchievementsService_def)
  have h: "hasAchievement parse_example cached_ready_service ''user-wallet'' ''1'' 2000
             rejecting_world = (Inr False, cached_ready_service, rejecting_world)"
    using c by (simp add: hasAchievement_def getProcessState_hit awarded_def ledger_before_def)
  have "fst (sendAosMessage ?opts 3 rejecting_world) = Inl (Error ''invalid signature'')"
    by (simp add: send_fst_one_attempt send_outcome_def rejecting_world_def replying_def)
  then have s: "sendAosMessage ?opts 3 rejecting_world
                  = (Inl (Error ''invalid signature''), snd (sendAosMessage ?opts 3 rejecting_world))"
    by (simp add: prod_eq_iff)
  from failed_send_keeps_cache[OF ready_id(2) h] s
  have 1: "awardAchievement parse_example cached_ready_service ''Wuzzy Searcher'' ''user-wallet''
             2000 rejecting_world
           = (Inl (Error ''invalid signature''), cached_ready_service,
              snd (sendAosMessage ?opts 3 rejecting_world))"
    by blast
  let ?w1 = "queried rejecting_world"
  have n: "stateCache ready_service = None"
    by (simp add: ready_service_def fresh_service_def new_AchievementsService_def)
  have g: "getProcessState parse_example ready_service False 1000 rejecting_world
             = (Inr ledger_before, cached_ready_service, ?w1)"
    by (simp add: getProcessState_def fetchProcessState_def dry_one_attempt ready_service_def
          fresh_service_def new_AchievementsService_def rejecting_world_def replying_def
          snapshot_reply_def parseProcessInfo_def parse_example_def queried_def
          cached_ready_service_def)
  have h2: "hasAchievement parse_example ready_service ''user-wallet'' ''1'' 1000 rejecting_world
             = (Inr False, cached_ready_service, ?w1)"
    by (simp add: hasAchievement_def g awarded_def ledger_before_def)
  have "fst (sendAosMessage ?opts 3 ?w1) = Inl (Error ''invalid signature'')"
    by (simp add: send_fst_one_attempt send_outcome_def rejecting_world_def replying_def
          queried_def emit_def)
  then have s2: "sendAosMessage ?opts 3 ?w1
                  = (Inl (Error ''invalid signature''), snd (sendAosMessage ?opts 3 ?w1))"
    by (simp add: prod_eq_iff)
  from failed_send_keeps_cache[OF ready_id(1) h2] s2
  have 2: "awardAchievement parse_example ready_service ''Wuzzy Searcher'' ''user-wallet'' 1000
             rejecting_world
           = (Inl (Error ''invalid signature''), cached_ready_service,
              snd (sendAosMessage ?opts 3 ?w1))"
    by blast
  have "fst (getProcessState parse_example ready_service False 1000 rejecting_world)
          = Inr ledger_before"
    by (simp add: g)
  with failed_send_keeps_cache[OF ready_id(1) h2, where read = ledger_before] n
  have 3: "cached_ready_service
       = ready_service\<lparr>stateCache := Some ledger_before, stateCacheTimestamp := 1000\<rparr>"
    by blast
  from 1 2 3 c(1,2) show ?thesis by blast
qed




section \<open>Claims about the Reward Event Processor\<close>

text \<open>
  C5, as amended. Let the wallet of the event validate to a non-empty normalized
  address and wallet type, and let the job name be one of the four event types. The
  processor invokes \<^verbatim>\<open>awardAchievement\<close> for the generic searcher achievement and the
  normalized wallet first. When that invocation raises, the processor raises the
  same error and has made this one invocation only. When it returns, the processor
  invokes \<^verbatim>\<open>awardAchievement\<close> for the achievement of the event type, from the state
  the first invocation left; when this one raises, the processor raises the same
  error. When both return, the processor has made exactly these two invocations, in
  this order, and returns \<^verbatim>\<open>success: true\<close>, the job name as event type, the normalized
  wallet, the wallet type, the time, and the metadata of the event.
\<close>

theorem process_awards:
  assumes "v_valid (validate (data_walletAddress (job_data job)))"
    and "v_normalized (validate (data_walletAddress (job_data job))) = Some n"
    and "v_type (validate (data_walletAddress (job_data job))) = Some t"
    and "n \<noteq> []" and "t \<noteq> []"
    and "event_achievement (job_name job) = Some specific"
  shows "(award ACHIEVEMENT_WUZZY_SEARCHER n s = (Inl err, s1)
          \<longrightarrow> process validate award now job (calls, s)
                = (Inl err, calls @ [(ACHIEVEMENT_WUZZY_SEARCHER, n)], s1))
       \<and> (award ACHIEVEMENT_WUZZY_SEARCHER n s = (Inr (), s1)
            \<and> award specific n s1 = (Inl err, s2)
          \<longrightarrow> process validate award now job (calls, s)
                = (Inl err, calls @ [(ACHIEVEMENT_WUZZY_SEARCHER, n), (specific, n)], s2))
       \<and> (award ACHIEVEMENT_WUZZY_SEARCHER n s = (Inr (), s1)
            \<and> award specific n s1 = (Inr (), s2)
          \<longrightarrow> process validate award now job (calls, s)
                = (Inr \<lparr>success = True, eventType = job_name job, res_wallet = n,
                        walletType = t, processedAt = now,
                        metadata = data_metadata (job_data job)\<rparr>,
                   calls @ [(ACHIEVEMENT_WUZZY_SEARCHER, n), (specific, n)], s2))"
proof -
  have "process validate award now job (calls, s) = handleEvent award now job n t (calls, s)"
    using assms(1-5) by (simp add: process_def)
  then show ?thesis
    by (simp add: handleEvent_routed[OF assms(6)])
qed

theorem process_awards_witness:
  "process validate_example mock_award 5000 arns_job ([], [])
     = (Inr \<lparr>success = True, eventType = ''arns-search'',
             res_wallet = ''vLRHFqCw1uHu75xqB4fCDW-QxpkpJxBtFD9g4QYUbfw'',
             walletType = ''arweave'', processedAt = 5000,
             metadata = Some ''searchQuery: test''\<rparr>,
        [(''Wuzzy Searcher'', ''vLRHFqCw1uHu75xqB4fCDW-QxpkpJxBtFD9g4QYUbfw''),
         (''Wuzzy ArNS Searcher'', ''vLRHFqCw1uHu75xqB4fCDW-QxpkpJxBtFD9g4QYUbfw'')], [])
   \<and> process validate_example mock_award 5000 arns_job
        ([], [Inl (Error ''Temporary failure'')])
     = (Inl (Error ''Temporary failure''),
        [(''Wuzzy Searcher'', ''vLRHFqCw1uHu75xqB4fCDW-QxpkpJxBtFD9g4QYUbfw'')], [])
   \<and> process validate_example mock_award 5000 arns_job
        ([], [Inr (), Inl (Error ''Temporary failure'')])
     = (Inl (Error ''Temporary failure''),
        [(''Wuzzy Searcher'', ''vLRHFqCw1uHu75xqB4fCDW-QxpkpJxBtFD9g4QYUbfw''),
         (''Wuzzy ArNS Searcher'', ''vLRHFqCw1uHu75xqB4fCDW-QxpkpJxBtFD9g4QYUbfw'')], [])"
proof -
  let ?a = "''vLRHFqCw1uHu75xqB4fCDW-QxpkpJxBtFD9g4QYUbfw''"
  have v: "v_valid (validate_example (data_walletAddress (job_data arns_job)))"
    "v_normalized (validate_example (data_walletAddress (job_data arns_job))) = Some ?a"
    "v_type (validate_example (data_walletAddress (job_data arns_job))) = Some ''arweave''"
    "?a \<noteq> []" "''arweave'' \<noteq> []"
    "event_achievement (job_name arns_job) = Some ''Wuzzy ArNS Searcher''"
    "job_name arns_job = ''arns-search''"
    "data_metadata (job_data arns_job) = Some ''searchQuery: test''"
    by (simp_all add: validate_example_def arns_job_def event_achievement_def
          ACHIEVEMENT_WUZZY_ARNS_SEARCHER_def)
  note p = process_awards[where validate = validate_example and job = arns_job
               and award = mock_award and now = 5000 and calls = "[]", OF v(1-6)]
  have 1: "mock_award ACHIEVEMENT_WUZZY_SEARCHER ?a [] = (Inr (), [])
           \<and> mock_award ''Wuzzy ArNS Searcher'' ?a [] = (Inr (), [])"
    by (simp add: mock_award_def)
  have 2: "mock_award ACHIEVEMENT_WUZZY_SEARCHER ?a [Inl (Error ''Temporary failure'')]
             = (Inl (Error ''Temporary failure''), [])"
    by (simp add: mock_award_def)
  have 3: "mock_award ACHIEVEMENT_WUZZY_SEARCHER ?a [Inr (), Inl (Error ''Temporary failure'')]
             = (Inr (), [Inl (Error ''Temporary failure'')])
           \<and> mock_award ''Wuzzy ArNS Searcher'' ?a [Inl (Error ''Temporary failure'')]
             = (Inl (Error ''Temporary failure''), [])"
    by (simp add: mock_award_def)
  from p[where s = "[]" and ?s1.0 = "[]" and ?s2.0 = "[]"] 1
  have c1: "process validate_example mock_award 5000 arns_job ([], [])
     = (Inr \<lparr>success = True, eventType = ''arns-search'', res_wallet = ?a,
             walletType = ''arweave'', processedAt = 5000,
             metadata = Some ''searchQuery: test''\<rparr>,
        [(''Wuzzy Searcher'', ?a), (''Wuzzy ArNS Searcher'', ?a)], [])"
    by (simp add: v(7,8) ACHIEVEMENT_WUZZY_SEARCHER_def)
  from p[where s = "[Inl (Error ''Temporary failure'')]" and ?s1.0 = "[]"
           and err = "Error ''Temporary failure''"] 2
  have c2: "process validate_example mock_award 5000 arns_job
        ([], [Inl (Error ''Temporary failure'')])
     = (Inl (Error ''Temporary failure''), [(''Wuzzy Searcher'', ?a)], [])"
    by (simp add: ACHIEVEMENT_WUZZY_SEARCHER_def)
  from p[where s = "[Inr (), Inl (Error ''Temporary failure'')]"
           and ?s1.0 = "[Inl (Error ''Temporary failure'')]" and ?s2.0 = "[]"
           and err = "Error ''Temporary failure''"] 3
  have c3: "process validate_example mock_award 5000 arns_job
        ([], [Inr (), Inl (Error ''Temporary failure'')])
     = (Inl (Error ''Temporary failure''),
        [(''Wuzzy Searcher'', ?a), (''Wuzzy ArNS Searcher'', ?a)], [])"
    by (simp add: ACHIEVEMENT_WUZZY_SEARCHER_def)
  from c1 c2 c3 show ?thesis by blast
qed

text \<open>
  C5 as stated fails when the first award raises. Here the job is an
  \<^verbatim>\<open>arns-search\<close> event with a wallet that validates, the collaborator is the real
  \<^verbatim>\<open>awardAchievement\<close> of a service that has loaded its ids, and the ledger cannot be
  reached: the idempotency check of the first award raises, the processor raises
  the same error, and \<^verbatim>\<open>awardAchievement\<close> has been invoked once, not twice.
\<close>

theorem process_awards_counterexample:
  "v_valid (validate_example (data_walletAddress (job_data arns_job)))
   \<and> job_name arns_job = ''arns-search''
   \<and> fst (process validate_example (service_award parse_example 1000) 5000 arns_job
            ([], ready_service, replying (\<lambda>n. Inl (Error ''network unreachable''))))
       = Inl (Error ''network unreachable'')
   \<and> fst (snd (process validate_example (service_award parse_example 1000) 5000 arns_job
                 ([], ready_service, replying (\<lambda>n. Inl (Error ''network unreachable'')))))
       = [(''Wuzzy Searcher'', ''vLRHFqCw1uHu75xqB4fCDW-QxpkpJxBtFD9g4QYUbfw'')]"
proof -
  let ?a = "''vLRHFqCw1uHu75xqB4fCDW-QxpkpJxBtFD9g4QYUbfw''"
  let ?w = "replying (\<lambda>n. Inl (Error ''network unreachable''))"
  have g: "fst (getProcessState parse_example ready_service False 1000 ?w)
             = Inl (Error ''network unreachable'')"
    by (simp add: getProcessState_def fetchProcessState_def dry_one_attempt ready_service_def
          fresh_service_def new_AchievementsService_def replying_def)
  have a: "fst (awardAchievement parse_example ready_service ''Wuzzy Searcher'' ?a 1000 ?w)
             = Inl (Error ''network unreachable'')"
    using g
    by (cases "getProcessState parse_example ready_service False 1000 ?w")
       (simp add: awardAchievement_def hasAchievement_def ready_id(1))
  have s: "fst (service_award parse_example 1000 ''Wuzzy Searcher'' ?a (ready_service, ?w))
             = Inl (Error ''network unreachable'')"
    using a by (simp add: service_award_def split: prod.splits)
  have v: "v_valid (validate_example (data_walletAddress (job_data arns_job)))"
    "job_name arns_job = ''arns-search''"
    by (simp_all add: validate_example_def arns_job_def)
  have p: "process validate_example (service_award parse_example 1000) 5000 arns_job
             ([], ready_service, ?w)
           = handleArnsSearch (service_award parse_example 1000) 5000 arns_job ?a ''arweave''
               ([], ready_service, ?w)"
    by (simp add: process_def handleEvent_def validate_example_def arns_job_def)
  show ?thesis
    using s v
    by (cases "service_award parse_example 1000 ''Wuzzy Searcher'' ?a (ready_service, ?w)")
       (simp add: p handleArnsSearch_def invoke_def ACHIEVEMENT_WUZZY_SEARCHER_def)
qed

text \<open>
  C6. When the wallet address of the event fails validation, the processor raises
  an error whose message starts with \<^verbatim>\<open>Wallet validation failed: \<close> and continues with
  the validator's error; the list of invocations of \<^verbatim>\<open>awardAchievement\<close> and the
  state of the service are as they were: no invocation was made. The outcome of
  \<^verbatim>\<open>process\<close> is this error, which is what the queue engine receives.
\<close>

theorem invalid_wallet_fails_job:
  assumes "\<not> v_valid (validate (data_walletAddress (job_data job)))"
  shows "process validate award now job (calls, s)
           = (Inl (Error (''Wallet validation failed: ''
                 @ (case v_error (validate (data_walletAddress (job_data job))) of
                      None \<Rightarrow> ''undefined'' | Some e \<Rightarrow> e))),
              calls, s)"
  using assms by (simp add: process_def)

theorem invalid_wallet_fails_job_witness:
  "process validate_example mock_award 5000 invalid_job ([], [])
     = (Inl (Error ''Wallet validation failed: Invalid wallet address format''), [], [])"
proof -
  have "\<not> v_valid (validate_example (data_walletAddress (job_data invalid_job)))"
    by (simp add: validate_example_def invalid_job_def)
  from invalid_wallet_fails_job[where validate = validate_example and job = invalid_job
         and award = mock_award and now = 5000 and calls = "[]" and s = "[]", OF this]
  show ?thesis
    by (simp add: validate_example_def invalid_job_def)
qed

end
